theory Spec2Isabelle
  imports Complex_Main "HOL-Library.Word" "HOL-Library.Log_Nat"
begin

section \<open>Numbers as the C++ code has them\<close>

text \<open>
  \<^verbatim>\<open>qreal\<close> is a \<^verbatim>\<open>double\<close>, an IEEE 754 binary64 number: a finite value, an infinity
  or NaN. A finite value is held as the rational number it denotes. The two zeros are
  not told apart: the functions of this file never divide by a zero and never read the
  sign of one. The doubles among the rationals are the values that \<open>RN\<close> below returns,
  and every operation on doubles ends with \<open>RN\<close>.
\<close>

datatype qreal = Finite rat | PosInf | NegInf | NaN

text \<open>
  \<open>binade x\<close> is the exponent \<open>k\<close> with \<open>2 powi k \<le> \<bar>x\<bar> < 2 powi (k + 1)\<close> of a number
  other than 0, computed from the bit lengths of its numerator and denominator.
\<close>

definition binade :: "rat \<Rightarrow> int" where
  "binade x =
     (let (p, q) = quotient_of \<bar>x\<bar>;
          k = bitlen p - bitlen q
      in if of_int p < of_int q * (2::rat) powi k then k - 1 else k)"

text \<open>The nearest integer, the even one of the two when they are equally near.\<close>

definition round_even :: "rat \<Rightarrow> int" where
  "round_even x =
     (let n = \<lfloor>x\<rfloor>; d = x - of_int n
      in if d < 1 / 2 then n else if 1 / 2 < d then n + 1 else if even n then n else n + 1)"

text \<open>
  Rounding to the nearest double, ties to even, the default rounding of IEEE 754. A
  double has a significand of 53 bits, so the doubles around \<open>x\<close> are the multiples of
  \<open>2 powi (binade x - 52)\<close>; below the least normal exponent, -1022, they stay the
  multiples of \<open>2 powi (- 1074)\<close> (the subnormal numbers); a rounded value of magnitude
  \<open>2\<^sup>1\<^sup>0\<^sup>2\<^sup>4\<close> or more is replaced by the infinity of its sign.
\<close>

definition RN :: "rat \<Rightarrow> qreal" where
  "RN x =
     (if x = 0 then Finite 0
      else
        let e = max (binade x) (- 1022) - 52;
            y = of_int (round_even (x / 2 powi e)) * 2 powi e
        in if 2 ^ 1024 \<le> \<bar>y\<bar> then (if 0 < y then PosInf else NegInf) else Finite y)"

text \<open>The comparison \<^verbatim>\<open>a < b\<close> of two doubles; it is false when either is NaN.\<close>

fun qreal_less :: "qreal \<Rightarrow> qreal \<Rightarrow> bool" where
  "qreal_less NaN b = False"
| "qreal_less a NaN = False"
| "qreal_less PosInf b = False"
| "qreal_less a NegInf = False"
| "qreal_less NegInf b = True"
| "qreal_less a PosInf = True"
| "qreal_less (Finite x) (Finite y) = (x < y)"

text \<open>
  Qt's \<^verbatim>\<open>qMax(a, b)\<close> is \<^verbatim>\<open>(a < b) ? b : a\<close>: it returns \<open>a\<close> when \<open>b\<close> is NaN.
\<close>

definition qMax :: "qreal \<Rightarrow> qreal \<Rightarrow> qreal" where
  "qMax a b = (if qreal_less a b then b else a)"

text \<open>
  The product and the quotient of two doubles: the exact result, rounded. NaN
  propagates; an infinity times zero, and a quotient of two zeros or of two infinities,
  are NaN; otherwise an infinite operand or a zero divisor gives an infinity or a
  zero, with the sign of the result.
\<close>

definition qreal_sgn :: "qreal \<Rightarrow> int" where
  "qreal_sgn a = (case a of Finite x \<Rightarrow> (if x < 0 then - 1 else 1) | PosInf \<Rightarrow> 1 | NegInf \<Rightarrow> - 1 | NaN \<Rightarrow> 1)"

definition signed_inf :: "int \<Rightarrow> qreal" where
  "signed_inf s = (if s < 0 then NegInf else PosInf)"

fun qreal_mult :: "qreal \<Rightarrow> qreal \<Rightarrow> qreal" where
  "qreal_mult NaN b = NaN"
| "qreal_mult a NaN = NaN"
| "qreal_mult (Finite x) (Finite y) = RN (x * y)"
| "qreal_mult (Finite x) b = (if x = 0 then NaN else signed_inf (qreal_sgn (Finite x) * qreal_sgn b))"
| "qreal_mult a (Finite y) = (if y = 0 then NaN else signed_inf (qreal_sgn a * qreal_sgn (Finite y)))"
| "qreal_mult a b = signed_inf (qreal_sgn a * qreal_sgn b)"

fun qreal_div :: "qreal \<Rightarrow> qreal \<Rightarrow> qreal" where
  "qreal_div NaN b = NaN"
| "qreal_div a NaN = NaN"
| "qreal_div (Finite x) (Finite y) =
     (if y = 0 then (if x = 0 then NaN else signed_inf (qreal_sgn (Finite x))) else RN (x / y))"
| "qreal_div (Finite x) b = Finite 0"
| "qreal_div a (Finite y) = signed_inf (qreal_sgn a * qreal_sgn (Finite y))"
| "qreal_div a b = NaN"

text \<open>
  \<^verbatim>\<open>int\<close> and \<^verbatim>\<open>qint64\<close> are modelled by \<open>int\<close>. The conversion of an \<^verbatim>\<open>int\<close> to a
  double rounds (and is exact, an \<^verbatim>\<open>int\<close> having 32 bits).

  The conversion of a double to \<^verbatim>\<open>int\<close> discards the fraction, that is, it rounds
  towards zero. When the result is outside the range of a 32-bit \<^verbatim>\<open>int\<close>, or the
  double is an infinity or NaN, C++ leaves the behaviour undefined; the model returns
  \<open>- 2\<^sup>3\<^sup>1\<close> there, which is what the conversion instruction of x86-64 stores. Integer
  division of C++ rounds towards zero as well.
\<close>

definition double_of_int :: "int \<Rightarrow> qreal" where
  "double_of_int n = RN (of_int n)"

definition int_of_qreal :: "qreal \<Rightarrow> int" where
  "int_of_qreal a =
     (case a of
        Finite x \<Rightarrow>
          (let t = (if 0 \<le> x then \<lfloor>x\<rfloor> else \<lceil>x\<rceil>)
           in if - 2147483648 \<le> t \<and> t \<le> 2147483647 then t else - 2147483648)
      | _ \<Rightarrow> - 2147483648)"

definition c_div :: "int \<Rightarrow> int \<Rightarrow> int" where
  "c_div a b = sgn a * sgn b * (\<bar>a\<bar> div \<bar>b\<bar>)"

text \<open>
  FFmpeg's \<^verbatim>\<open>av_q2d(AVRational a)\<close> is \<^verbatim>\<open>a.num / (double) a.den\<close>; it is how a stream's
  frame rate becomes a double.
\<close>

definition av_q2d :: "int \<Rightarrow> int \<Rightarrow> qreal" where
  "av_q2d num den = qreal_div (double_of_int num) (double_of_int den)"

section \<open>Internal::computeNotifyPrecision\<close>

text \<open>
  \<^verbatim>\<open>
  int computeNotifyPrecision(qint64 duration, qreal fps)
  {
      if (duration <= 0 || duration > 60*1000) // no duration or 10min
          return 500;
      if (duration > 20*1000)
          return 250;
      int dt = 500;
      if (fps > 1) {
          dt = qMin(250, int(qreal(dt*2)/fps));
      } else {
          dt = duration / 80; //<= 250
      }
      return qMax(20, dt);
  }
  \<close>
\<close>

text \<open>
  The literal 1 of \<^verbatim>\<open>fps > 1\<close> is converted to a double, and \<^verbatim>\<open>qreal(dt*2)/fps\<close> is a
  division of doubles.
\<close>

definition computeNotifyPrecision :: "int \<Rightarrow> qreal \<Rightarrow> int" where
  "computeNotifyPrecision duration fps =
     (if duration \<le> 0 \<or> duration > 60 * 1000 then 500
      else if duration > 20 * 1000 then 250
      else
        let dt = (500 :: int);
            dt' = (if qreal_less (Finite 1) fps
                   then min 250 (int_of_qreal (qreal_div (double_of_int (dt * 2)) fps))
                   else c_div duration 80)
        in max 20 dt')"

section \<open>correct\_audio\_channels\<close>

text \<open>
  The fields of FFmpeg's \<^verbatim>\<open>AVCodecContext\<close> that this file reads or writes.
  \<^verbatim>\<open>channels\<close>, \<^verbatim>\<open>sample_rate\<close> and \<^verbatim>\<open>sample_fmt\<close> are C ints (no arithmetic is done
  on them here), \<^verbatim>\<open>channel_layout\<close> is a \<^verbatim>\<open>uint64_t\<close> bit mask.
\<close>

record AVCodecContext =
  channels :: int
  channel_layout :: "64 word"
  sample_rate :: int
  sample_fmt :: int

type_synonym SampleFormat = int
type_synonym ChannelLayout = int

text \<open>
  Functions of libraries whose code is not part of this file, taken as parameters:
  FFmpeg's \<^verbatim>\<open>av_get_channel_layout_nb_channels\<close> and
  \<^verbatim>\<open>av_get_default_channel_layout\<close> (its \<^verbatim>\<open>int64_t\<close> result as it is stored in the
  \<^verbatim>\<open>uint64_t\<close> field), and of \<^verbatim>\<open>QtAV::AudioFormat\<close> the two conversions behind
  \<^verbatim>\<open>setSampleFormatFFmpeg\<close> and \<^verbatim>\<open>setChannelLayoutFFmpeg\<close> and the planarity test
  behind \<^verbatim>\<open>isPlanar\<close>.
\<close>

record Lib =
  av_get_channel_layout_nb_channels :: "64 word \<Rightarrow> int"
  av_get_default_channel_layout :: "int \<Rightarrow> 64 word"
  sampleFormatFromFFmpeg :: "int \<Rightarrow> SampleFormat"
  channelLayoutFromFFmpeg :: "64 word \<Rightarrow> ChannelLayout"
  isPlanarFormat :: "SampleFormat \<Rightarrow> bool"

text \<open>
  \<^verbatim>\<open>
  static bool correct_audio_channels(AVCodecContext *ctx) {
      if (ctx->channels <= 0) {
          if (ctx->channel_layout) {
              ctx->channels = av_get_channel_layout_nb_channels(ctx->channel_layout);
          }
      } else {
          if (!ctx->channel_layout) {
              ctx->channel_layout = av_get_default_channel_layout(ctx->channels);
          }
      }
      return ctx->channel_layout > 0 && ctx->channels > 0;
  }
  \<close>
  The context is mutated through the pointer; the model returns the result and the
  context after the call.
\<close>

definition correct_audio_channels :: "Lib \<Rightarrow> AVCodecContext \<Rightarrow> bool \<times> AVCodecContext" where
  "correct_audio_channels lib ctx =
     (let ctx' =
            (if channels ctx \<le> 0 then
               (if channel_layout ctx \<noteq> 0
                then ctx\<lparr>channels := av_get_channel_layout_nb_channels lib (channel_layout ctx)\<rparr>
                else ctx)
             else
               (if channel_layout ctx = 0
                then ctx\<lparr>channel_layout := av_get_default_channel_layout lib (channels ctx)\<rparr>
                else ctx))
      in (channel_layout ctx' > 0 \<and> channels ctx' > 0, ctx'))"

section \<open>Packet queue sizing\<close>

text \<open>
  Both \<^verbatim>\<open>setupAudioThread\<close> and \<^verbatim>\<open>setupVideoThread\<close> end with
  \<^verbatim>\<open>
  int queue_min = 0.61803*qMax<qreal>(24.0, statistics.video_only.frame_rate);
  int queue_max = int(1.61803*(qreal)queue_min); //about 1 second
  \<close>
\<close>

text \<open>
  The literals \<^verbatim>\<open>0.61803\<close> and \<^verbatim>\<open>1.61803\<close> are the doubles nearest to these decimal
  numbers, and \<^verbatim>\<open>24.0\<close> is the double 24. Both products are products of doubles; the
  first is converted to \<^verbatim>\<open>int\<close> by the initialisation, the second by the cast.
\<close>

definition queue_min :: "qreal \<Rightarrow> int" where
  "queue_min frame_rate =
     int_of_qreal (qreal_mult (RN (61803 / 100000)) (qMax (Finite 24) frame_rate))"

definition queue_max :: "qreal \<Rightarrow> int" where
  "queue_max frame_rate =
     int_of_qreal (qreal_mult (RN (161803 / 100000)) (double_of_int (queue_min frame_rate)))"

section \<open>The player's private state and its collaborators\<close>

text \<open>
  Heap objects (decoders) are named by their identity; \<^verbatim>\<open>new\<close> and the factories hand
  out the next unused identity.
\<close>

type_synonym obj = nat
type_synonym VideoDecoderId = nat
type_synonym AudioOutputId = nat

datatype StreamKind = AudioStream | VideoStream

datatype AVError = AudioCodecNotFound | VideoCodecNotFound

text \<open>
  Modelled from the spec: \<^verbatim>\<open>QtAV::AudioFormat\<close> (QtAV/AudioFormat.h is not among the
  sources). The spec's AudioFormatDescriptor holds "sample rate, sample format, channel
  layout, planar/interleaved flag", and "two instances are compared structurally (not
  by identity)". The planar flag is a function of the sample format
  (\<open>isPlanarFormat\<close>), so the record holds the three other fields and \<^verbatim>\<open>!=\<close> is
  inequality of records.
\<close>

record AudioFormat =
  sampleRate :: int
  sampleFormat :: SampleFormat
  channelLayout :: ChannelLayout

text \<open>
  Modelled from the spec: \<^verbatim>\<open>QtAV::AudioOutput\<close> (its class is not among the sources),
  with the operations the spec lists for output devices: \<^verbatim>\<open>isSupported(format)\<close> (the
  source also calls it on a sample format and on a channel layout),
  \<^verbatim>\<open>preferredSampleFormat()\<close>, \<^verbatim>\<open>preferredChannelLayout()\<close>, \<^verbatim>\<open>setAudioFormat(format)\<close>,
  \<^verbatim>\<open>open()\<close>, \<^verbatim>\<open>close()\<close> and the currently configured format. \<open>audioFormat\<close> is the
  configured format, which \<^verbatim>\<open>setAudioFormat\<close> replaces; the capabilities belong to the
  device and do not change; \<open>open_result\<close> is what \<^verbatim>\<open>open()\<close> returns when the device
  is configured with the given format.
\<close>

record AudioOutput =
  audioFormat :: AudioFormat
  isSupported :: "AudioFormat \<Rightarrow> bool"
  isSupportedSampleFormat :: "SampleFormat \<Rightarrow> bool"
  isSupportedChannelLayout :: "ChannelLayout \<Rightarrow> bool"
  preferredSampleFormat :: SampleFormat
  preferredChannelLayout :: ChannelLayout
  open_result :: "AudioFormat \<Rightarrow> bool"

text \<open>
  The answers of the collaborators during one setup: whether \<^verbatim>\<open>AudioDecoder::open()\<close>
  and \<^verbatim>\<open>prepare()\<close> succeed on the selected stream, what the two factories return
  (\<open>None\<close> and \<open>False\<close> stand for a null pointer), whether \<^verbatim>\<open>prepare()\<close> and \<^verbatim>\<open>open()\<close>
  of a video decoder implementation succeed, and the selected video stream's
  \<^verbatim>\<open>av_q2d(stream->avg_frame_rate)\<close>.
\<close>

record World =
  lib :: Lib
  audio_decoder_open :: bool
  audio_decoder_prepare :: bool
  createAudioOutput :: "AudioOutputId \<Rightarrow> AudioOutput option"
  createVideoDecoder :: "VideoDecoderId \<Rightarrow> bool"
  video_decoder_prepare :: "VideoDecoderId \<Rightarrow> bool"
  video_decoder_open :: "VideoDecoderId \<Rightarrow> bool"
  avg_frame_rate :: qreal

text \<open>
  Every call on a collaborator and every emitted signal is recorded, in order, in the
  state's \<open>trace\<close>.
\<close>

datatype event =
    SetStreamIndex StreamKind int
  | QueueClear StreamKind
  | ThreadSetDecoder StreamKind "obj option"
  | ThreadSetOutputNull
  | InitStatistics StreamKind
  | DecoderDisconnect obj
  | DecoderDelete StreamKind obj
  | DecoderNew obj
  | DecoderCreate VideoDecoderId "obj option"
  | ConnectError obj
  | SetCodecContext obj
  | SetOptions obj
  | DecoderPrepare obj bool
  | DecoderOpen obj bool
  | EmitError AVError
  | AudioOutputCreate AudioOutputId bool
  | AoClose
  | AoSetAudioFormat AudioFormat
  | AoOpen bool
  | AoDelete
  | ResamplerSetOutAudioFormat AudioFormat
  | ResamplerSetInAudioFormat AVCodecContext
  | ThreadNew StreamKind
  | PlayerSetAudioOutput bool
  | ThreadSetPicture
  | SetThreshold StreamKind int
  | SetCapacity StreamKind int

text \<open>
  An \<^verbatim>\<open>AudioThread\<close> or \<^verbatim>\<open>VideoThread\<close>: its decoder and its packet queue. A thread
  is created with no decoder and an empty queue; the threshold and capacity of a new
  queue are set before the setup that created the thread returns.
\<close>

record AVThread =
  decoder :: "obj option"
  packetQueue :: "nat list"
  threshold :: int
  capacity :: int

text \<open>
  The members of \<^verbatim>\<open>AVPlayer::Private\<close> that the two setup functions use.
  \<open>audio_avctx\<close> and \<open>video_avctx\<close> are what \<^verbatim>\<open>demuxer.audioCodecContext()\<close> and
  \<^verbatim>\<open>demuxer.videoCodecContext()\<close> return after the \<^verbatim>\<open>setStreamIndex\<close> call of the setup
  (\<open>None\<close> for a null pointer: the stream is absent); \<open>frame_rate\<close> is
  \<^verbatim>\<open>statistics.video_only.frame_rate\<close>, the other statistics are not modelled.
\<close>

record Private =
  audio_track :: int
  video_track :: int
  audio_avctx :: "AVCodecContext option"
  video_avctx :: "AVCodecContext option"
  adec :: "obj option"
  vdec :: "(obj \<times> VideoDecoderId) option"
  ao :: "AudioOutput option"
  ao_enabled :: bool
  ao_ids :: "AudioOutputId list"
  vc_ids :: "VideoDecoderId list"
  athread :: "AVThread option"
  vthread :: "AVThread option"
  frame_rate :: qreal
  next_obj :: obj
  trace :: "event list"

definition emit :: "event list \<Rightarrow> Private \<Rightarrow> Private" where
  "emit es s = s\<lparr>trace := trace s @ es\<rparr>"

definition new_thread :: AVThread where
  "new_thread = \<lparr>decoder = None, packetQueue = [], threshold = 0, capacity = 0\<rparr>"

section \<open>Statistics\<close>

text \<open>
  \<^verbatim>\<open>initAudioStatistics\<close> resets the audio statistics when there is no codec context,
  and otherwise calls \<^verbatim>\<open>correct_audio_channels(avctx)\<close> before it copies the fields.
\<close>

definition initAudioStatistics :: "World \<Rightarrow> Private \<Rightarrow> Private" where
  "initAudioStatistics w s =
     (case audio_avctx s of
        None \<Rightarrow> emit [InitStatistics AudioStream] s
      | Some ctx \<Rightarrow>
          emit [InitStatistics AudioStream]
            (s\<lparr>audio_avctx := Some (snd (correct_audio_channels (lib w) ctx))\<rparr>))"

text \<open>
  \<^verbatim>\<open>initVideoStatistics\<close> sets \<^verbatim>\<open>statistics.video_only = Statistics::VideoOnly()\<close> when
  there is no codec context, and otherwise
  \<^verbatim>\<open>statistics.video_only.frame_rate = av_q2d(stream->avg_frame_rate)\<close>.
  Modelled from the spec: the default \<^verbatim>\<open>Statistics::VideoOnly\<close> (Statistics.h is not
  among the sources) is "a zeroed/default record", so its frame rate is 0.
\<close>

definition initVideoStatistics :: "World \<Rightarrow> Private \<Rightarrow> Private" where
  "initVideoStatistics w s =
     (case video_avctx s of
        None \<Rightarrow> emit [InitStatistics VideoStream] (s\<lparr>frame_rate := Finite 0\<rparr>)
      | Some ctx \<Rightarrow> emit [InitStatistics VideoStream] (s\<lparr>frame_rate := avg_frame_rate w\<rparr>))"

section \<open>AVPlayer::Private::setupAudioThread\<close>

text \<open>
  Lines 278--286: select the stream; an existing thread has its queue cleared and its
  decoder and output detached, and the audio statistics are refreshed.
\<close>

definition audio_reset :: "World \<Rightarrow> Private \<Rightarrow> Private" where
  "audio_reset w s =
     (let s1 = emit [SetStreamIndex AudioStream (audio_track s)] s in
      case athread s1 of
        None \<Rightarrow> s1
      | Some th \<Rightarrow>
          initAudioStatistics w
            (emit [QueueClear AudioStream, ThreadSetDecoder AudioStream None, ThreadSetOutputNull]
               (s1\<lparr>athread := Some (th\<lparr>packetQueue := [], decoder := None\<rparr>)\<rparr>)))"

text \<open>
  Lines 294--302: the previous decoder is disconnected and deleted, then a new
  \<^verbatim>\<open>AudioDecoder\<close> is constructed, its error signal connected to the player's, and the
  codec context and options attached. The result is the new decoder and the state.
\<close>

definition new_audio_decoder :: "Private \<Rightarrow> obj \<times> Private" where
  "new_audio_decoder s =
     (let s1 = (case adec s of
                  None \<Rightarrow> s
                | Some old \<Rightarrow>
                    (emit [DecoderDisconnect old, DecoderDelete AudioStream old] s)\<lparr>adec := None\<rparr>);
          d = next_obj s1
      in (d, (emit [DecoderNew d, ConnectError d, SetCodecContext d, SetOptions d] s1)
               \<lparr>adec := Some d, next_obj := Suc d\<rparr>))"

text \<open>
  Lines 312--319: \<^verbatim>\<open>foreach (AudioOutputId aoid, ao_ids) { ao = AudioOutputFactory::create(aoid); if (ao) break; }\<close>
\<close>

fun create_audio_output :: "World \<Rightarrow> AudioOutputId list \<Rightarrow> Private \<Rightarrow> Private" where
  "create_audio_output w [] s = s"
| "create_audio_output w (aoid # ids) s =
     (case createAudioOutput w aoid of
        Some dev \<Rightarrow> (emit [AudioOutputCreate aoid True] s)\<lparr>ao := Some dev\<rparr>
      | None \<Rightarrow> create_audio_output w ids ((emit [AudioOutputCreate aoid False] s)\<lparr>ao := None\<rparr>))"

text \<open>
  Lines 327--347: the target format, from the codec context (already passed through
  \<^verbatim>\<open>correct_audio_channels\<close>) and the device. \<open>derived_format\<close> is the format before
  the test \<^verbatim>\<open>ao->isSupported(af)\<close>, \<open>negotiate_format\<close> the one after it.
  \<^verbatim>\<open>
  AudioFormat af;
  af.setSampleRate(avctx->sample_rate);
  af.setSampleFormatFFmpeg(avctx->sample_fmt);
  // 5, 6, 7 channels may not play
  if (avctx->channels > 2)
      af.setChannelLayout(ao->preferredChannelLayout());
  else
      af.setChannelLayoutFFmpeg(avctx->channel_layout);
  // FIXME: workaround. planar convertion crash now!
  if (af.isPlanar()) {
      af.setSampleFormat(ao->preferredSampleFormat());
  }
  if (!ao->isSupported(af)) {
      if (!ao->isSupported(af.sampleFormat())) {
          af.setSampleFormat(ao->preferredSampleFormat());
      }
      if (!ao->isSupported(af.channelLayout())) {
          af.setChannelLayout(ao->preferredChannelLayout());
      }
  }
  \<close>
\<close>

definition derived_format :: "Lib \<Rightarrow> AudioOutput \<Rightarrow> AVCodecContext \<Rightarrow> AudioFormat" where
  "derived_format l dev ctx =
     (let af1 = \<lparr>sampleRate = sample_rate ctx,
                 sampleFormat = sampleFormatFromFFmpeg l (sample_fmt ctx),
                 channelLayout = (if channels ctx > 2 then preferredChannelLayout dev
                                  else channelLayoutFromFFmpeg l (channel_layout ctx))\<rparr>
      in if isPlanarFormat l (sampleFormat af1)
         then af1\<lparr>sampleFormat := preferredSampleFormat dev\<rparr> else af1)"

definition negotiate_format :: "Lib \<Rightarrow> AudioOutput \<Rightarrow> AVCodecContext \<Rightarrow> AudioFormat" where
  "negotiate_format l dev ctx =
     (let af2 = derived_format l dev ctx
      in if \<not> isSupported dev af2 then
           (let af3 = (if \<not> isSupportedSampleFormat dev (sampleFormat af2)
                       then af2\<lparr>sampleFormat := preferredSampleFormat dev\<rparr> else af2);
                af4 = (if \<not> isSupportedChannelLayout dev (channelLayout af3)
                       then af3\<lparr>channelLayout := preferredChannelLayout dev\<rparr> else af3)
            in af4)
         else af2)"

text \<open>
  Lines 321--359. Without a device nothing is done. With a device the codec context
  is corrected, the target format computed, and
  \<^verbatim>\<open>
  if (ao->audioFormat() != af) {
      qDebug("ao audio format is changed. reopen ao");
      ao->close();
      ao->setAudioFormat(af);
      if (!ao->open()) {
          //could not open audio device. use extrenal clock
          delete ao;
          ao = 0;
          return false;
      }
  }
  \<close>
  The boolean of the result is \<open>False\<close> where the source returns false; the context
  of the result is what \<^verbatim>\<open>avctx\<close> points to afterwards.
\<close>

definition setup_audio_output ::
  "World \<Rightarrow> AVCodecContext \<Rightarrow> Private \<Rightarrow> bool \<times> AVCodecContext \<times> Private" where
  "setup_audio_output w ctx s =
     (case ao s of
        None \<Rightarrow> (True, ctx, s)
      | Some dev \<Rightarrow>
          (let ctx' = snd (correct_audio_channels (lib w) ctx);
               s1 = s\<lparr>audio_avctx := Some ctx'\<rparr>;
               af = negotiate_format (lib w) dev ctx'
           in if audioFormat dev \<noteq> af then
                (let s2 = emit [AoClose, AoSetAudioFormat af, AoOpen (open_result dev af)]
                            (s1\<lparr>ao := Some (dev\<lparr>audioFormat := af\<rparr>)\<rparr>)
                 in if \<not> open_result dev af then (False, ctx', (emit [AoDelete] s2)\<lparr>ao := None\<rparr>)
                    else (True, ctx', s2))
              else (True, ctx', s1)))"

text \<open>
  Lines 360--390: the resampler is configured and the decoder prepared, the thread is
  created if there is none, the decoder and the output are installed and the packet
  queue is sized.
\<close>

definition audio_attach :: "World \<Rightarrow> obj \<Rightarrow> AVCodecContext \<Rightarrow> Private \<Rightarrow> Private" where
  "audio_attach w d ctx s =
     (let s1 = emit ((case ao s of None \<Rightarrow> []
                      | Some dev \<Rightarrow> [ResamplerSetOutAudioFormat (audioFormat dev)])
                     @ [ResamplerSetInAudioFormat ctx, DecoderPrepare d (audio_decoder_prepare w)]) s;
          s2 = (case athread s1 of
                  None \<Rightarrow> (emit [ThreadNew AudioStream] s1)\<lparr>athread := Some new_thread\<rparr>
                | Some th \<Rightarrow> s1);
          qmin = queue_min (frame_rate s2);
          qmax = queue_max (frame_rate s2)
      in (emit [ThreadSetDecoder AudioStream (Some d), PlayerSetAudioOutput (ao s2 \<noteq> None),
                SetThreshold AudioStream qmin, SetCapacity AudioStream qmax] s2)
           \<lparr>athread := map_option (\<lambda>th. th\<lparr>decoder := Some d, threshold := qmin, capacity := qmax\<rparr>)
                          (athread s2)\<rparr>)"

definition setupAudioThread :: "World \<Rightarrow> Private \<Rightarrow> bool \<times> Private" where
  "setupAudioThread w s0 =
     (let s1 = audio_reset w s0 in
      case audio_avctx s1 of
        None \<Rightarrow> (False, s1)
      | Some ctx \<Rightarrow>
          (let (d, s2) = new_audio_decoder s1 in
           if \<not> audio_decoder_open w
           then (False, emit [DecoderOpen d False, EmitError AudioCodecNotFound] s2)
           else
             (let s3 = emit [DecoderOpen d True] s2;
                  s4 = (if ao s3 = None \<and> ao_enabled s3
                        then create_audio_output w (ao_ids s3) s3 else s3);
                  (ok, ctx5, s5) = setup_audio_output w ctx s4
              in if \<not> ok then (False, s5) else (True, audio_attach w d ctx5 s5))))"

section \<open>AVPlayer::Private::setupVideoThread\<close>

text \<open>
  Lines 395--403: select the stream; an existing thread has its queue cleared and its
  decoder detached, and the video statistics are refreshed.
\<close>

definition video_reset :: "World \<Rightarrow> Private \<Rightarrow> Private" where
  "video_reset w s =
     (let s1 = emit [SetStreamIndex VideoStream (video_track s)] s in
      case vthread s1 of
        None \<Rightarrow> s1
      | Some th \<Rightarrow>
          initVideoStatistics w
            (emit [QueueClear VideoStream, ThreadSetDecoder VideoStream None]
               (s1\<lparr>vthread := Some (th\<lparr>packetQueue := [], decoder := None\<rparr>)\<rparr>)))"

text \<open>Lines 408--412: \<^verbatim>\<open>if (vdec) { vdec->disconnect(); delete vdec; vdec = 0; }\<close>\<close>

definition delete_video_decoder :: "Private \<Rightarrow> Private" where
  "delete_video_decoder s =
     (case vdec s of
        None \<Rightarrow> s
      | Some (old, vid) \<Rightarrow>
          (emit [DecoderDisconnect old, DecoderDelete VideoStream old] s)\<lparr>vdec := None\<rparr>)"

text \<open>
  Lines 413--428, the selection loop:
  \<^verbatim>\<open>
  foreach(VideoDecoderId vid, vc_ids) {
      VideoDecoder *vd = VideoDecoderFactory::create(vid);
      if (!vd) {
          continue;
      }
      vd->setCodecContext(avctx);
      vd->setOptions(vc_opt);
      if (vd->prepare() && vd->open()) {
          vdec = vd;
          break;
      }
      delete vd;
  }
  \<close>
  \<^verbatim>\<open>open()\<close> is called only when \<^verbatim>\<open>prepare()\<close> has returned true.
\<close>

fun try_video_decoders :: "World \<Rightarrow> VideoDecoderId list \<Rightarrow> Private \<Rightarrow> Private" where
  "try_video_decoders w [] s = s"
| "try_video_decoders w (vid # vids) s =
     (if \<not> createVideoDecoder w vid
      then try_video_decoders w vids (emit [DecoderCreate vid None] s)
      else
        (let vd = next_obj s;
             s1 = (emit [DecoderCreate vid (Some vd), SetCodecContext vd, SetOptions vd] s)
                    \<lparr>next_obj := Suc vd\<rparr>
         in if video_decoder_prepare w vid then
              (if video_decoder_open w vid
               then (emit [DecoderPrepare vd True, DecoderOpen vd True] s1)\<lparr>vdec := Some (vd, vid)\<rparr>
               else try_video_decoders w vids
                      (emit [DecoderPrepare vd True, DecoderOpen vd False,
                             DecoderDelete VideoStream vd] s1))
            else try_video_decoders w vids
                   (emit [DecoderPrepare vd False, DecoderDelete VideoStream vd] s1)))"

text \<open>
  Lines 436--461: the decoder's error signal is connected to the player's, the thread
  is created if there is none, the decoder is installed, the picture settings are
  passed on and the packet queue is sized.
\<close>

definition video_attach :: "World \<Rightarrow> obj \<Rightarrow> Private \<Rightarrow> Private" where
  "video_attach w d s =
     (let s1 = emit [ConnectError d] s;
          s2 = (case vthread s1 of
                  None \<Rightarrow> (emit [ThreadNew VideoStream] s1)\<lparr>vthread := Some new_thread\<rparr>
                | Some th \<Rightarrow> s1);
          qmin = queue_min (frame_rate s2);
          qmax = queue_max (frame_rate s2)
      in (emit [ThreadSetDecoder VideoStream (Some d), ThreadSetPicture,
                SetThreshold VideoStream qmin, SetCapacity VideoStream qmax] s2)
           \<lparr>vthread := map_option (\<lambda>th. th\<lparr>decoder := Some d, threshold := qmin, capacity := qmax\<rparr>)
                          (vthread s2)\<rparr>)"

definition setupVideoThread :: "World \<Rightarrow> Private \<Rightarrow> bool \<times> Private" where
  "setupVideoThread w s0 =
     (let s1 = video_reset w s0 in
      case video_avctx s1 of
        None \<Rightarrow> (False, s1)
      | Some ctx \<Rightarrow>
          (let s2 = try_video_decoders w (vc_ids s1) (delete_video_decoder s1) in
           case vdec s2 of
             None \<Rightarrow> (False, emit [EmitError VideoCodecNotFound] s2)
           | Some (d, vid) \<Rightarrow> (True, video_attach w d s2)))"

section \<open>Observations on the trace\<close>

text \<open>
  The decoder objects of a stream kind that an event constructs (\<^verbatim>\<open>new AudioDecoder()\<close>,
  or a non-null result of \<^verbatim>\<open>VideoDecoderFactory::create\<close>) and destroys.
\<close>

definition created_by :: "StreamKind \<Rightarrow> event \<Rightarrow> obj list" where
  "created_by k e =
     (case e of
        DecoderNew d \<Rightarrow> (if k = AudioStream then [d] else [])
      | DecoderCreate vid r \<Rightarrow> (case r of None \<Rightarrow> [] | Some d \<Rightarrow> (if k = VideoStream then [d] else []))
      | _ \<Rightarrow> [])"

definition deleted_by :: "StreamKind \<Rightarrow> event \<Rightarrow> obj list" where
  "deleted_by k e = (case e of DecoderDelete k' d \<Rightarrow> (if k' = k then [d] else []) | _ \<Rightarrow> [])"

definition created_objs :: "StreamKind \<Rightarrow> event list \<Rightarrow> obj list" where
  "created_objs k tr = concat (map (created_by k) tr)"

definition deleted_objs :: "StreamKind \<Rightarrow> event list \<Rightarrow> obj list" where
  "deleted_objs k tr = concat (map (deleted_by k) tr)"

text \<open>The decoder implementations handed to the factory, the error signals emitted by
  the player, and the calls that close or open the audio device, each in order.\<close>

definition tried_ids :: "event list \<Rightarrow> VideoDecoderId list" where
  "tried_ids tr = concat (map (\<lambda>e. case e of DecoderCreate vid r \<Rightarrow> [vid] | _ \<Rightarrow> []) tr)"

definition errors :: "event list \<Rightarrow> AVError list" where
  "errors tr = concat (map (\<lambda>e. case e of EmitError x \<Rightarrow> [x] | _ \<Rightarrow> []) tr)"

definition reopen_calls :: "event list \<Rightarrow> event list" where
  "reopen_calls tr = filter (\<lambda>e. case e of AoClose \<Rightarrow> True | AoOpen b \<Rightarrow> True | _ \<Rightarrow> False) tr"

text \<open>
  The decoder objects of a kind that are alive: \<open>live_after k L tr\<close> are those alive
  after the events \<open>tr\<close> when \<open>L\<close> were alive before, and \<open>at_most_one_live k L tr\<close>
  says that before, between and after the events of \<open>tr\<close> at most one is alive.
\<close>

definition live_step :: "StreamKind \<Rightarrow> obj set \<Rightarrow> event \<Rightarrow> obj set" where
  "live_step k L e = (L \<union> set (created_by k e)) - set (deleted_by k e)"

fun live_after :: "StreamKind \<Rightarrow> obj set \<Rightarrow> event list \<Rightarrow> obj set" where
  "live_after k L [] = L"
| "live_after k L (e # es) = live_after k (live_step k L e) es"

fun at_most_one_live :: "StreamKind \<Rightarrow> obj set \<Rightarrow> event list \<Rightarrow> bool" where
  "at_most_one_live k L [] = (card L \<le> 1)"
| "at_most_one_live k L (e # es) = (card L \<le> 1 \<and> at_most_one_live k (live_step k L e) es)"

text \<open>
  The decoder the player owns for a kind (\<^verbatim>\<open>adec\<close>, \<^verbatim>\<open>vdec\<close>), and the invariant of a
  player whose trace records its whole history since construction: at no point of the
  history were two decoders of the kind alive, and the decoders alive now are the one
  the player owns, or none.
\<close>

definition owned :: "StreamKind \<Rightarrow> Private \<Rightarrow> obj set" where
  "owned k s = (case k of AudioStream \<Rightarrow> set_option (adec s)
                | VideoStream \<Rightarrow> fst ` set_option (vdec s))"

definition decoder_inv :: "StreamKind \<Rightarrow> Private \<Rightarrow> bool" where
  "decoder_inv k s = (at_most_one_live k {} (trace s) \<and> live_after k {} (trace s) = owned k s)"

text \<open>The thread of a stream kind (\<^verbatim>\<open>athread\<close>, \<^verbatim>\<open>vthread\<close>).\<close>

definition thread_of :: "StreamKind \<Rightarrow> Private \<Rightarrow> AVThread option" where
  "thread_of k s = (case k of AudioStream \<Rightarrow> athread s | VideoStream \<Rightarrow> vthread s)"

text \<open>A stream kind is disabled when its thread, if there is one, has no decoder.\<close>

definition disabled :: "StreamKind \<Rightarrow> Private \<Rightarrow> bool" where
  "disabled k s = (case thread_of k s of None \<Rightarrow> True | Some th \<Rightarrow> decoder th = None)"

text \<open>A candidate works when the factory constructs it and it prepares and opens.\<close>

definition decoder_works :: "World \<Rightarrow> VideoDecoderId \<Rightarrow> bool" where
  "decoder_works w vid =
     (createVideoDecoder w vid \<and> video_decoder_prepare w vid \<and> video_decoder_open w vid)"

text \<open>
  The calls of the selection loop written out candidate by candidate: the factory is
  asked for the implementation; when it returns one, the codec context and the
  options are attached, \<^verbatim>\<open>prepare()\<close> is called and, when that succeeded, \<^verbatim>\<open>open()\<close>;
  an implementation that did not do both is deleted. \<open>d\<close> is the identity the next
  constructed decoder gets. The candidates after the first working one make no calls.
\<close>

definition attempt_events :: "World \<Rightarrow> VideoDecoderId \<Rightarrow> obj \<Rightarrow> event list" where
  "attempt_events w vid d =
     (if \<not> createVideoDecoder w vid then [DecoderCreate vid None]
      else [DecoderCreate vid (Some d), SetCodecContext d, SetOptions d,
            DecoderPrepare d (video_decoder_prepare w vid)]
           @ (if video_decoder_prepare w vid then [DecoderOpen d (video_decoder_open w vid)] else [])
           @ (if decoder_works w vid then [] else [DecoderDelete VideoStream d]))"

fun selection_events :: "World \<Rightarrow> VideoDecoderId list \<Rightarrow> obj \<Rightarrow> event list" where
  "selection_events w [] d = []"
| "selection_events w (vid # vids) d =
     attempt_events w vid d
       @ (if decoder_works w vid then []
          else selection_events w vids (if createVideoDecoder w vid then Suc d else d))"

text \<open>The device that lines 311--320 leave in \<^verbatim>\<open>ao\<close>.\<close>

fun first_audio_output :: "World \<Rightarrow> AudioOutputId list \<Rightarrow> AudioOutput option" where
  "first_audio_output w [] = None"
| "first_audio_output w (aoid # ids) =
     (case createAudioOutput w aoid of Some dev \<Rightarrow> Some dev | None \<Rightarrow> first_audio_output w ids)"

definition audio_device :: "World \<Rightarrow> Private \<Rightarrow> AudioOutput option" where
  "audio_device w s =
     (if ao s = None \<and> ao_enabled s then first_audio_output w (ao_ids s) else ao s)"

text \<open>
  What the format negotiation of a setup does to the device, read off the state before
  the setup: \<open>None\<close> when the device is left alone (the stream is absent, the decoder
  does not open, there is no device, or the device is already configured with the
  target format), and otherwise the device with the target format it is reopened with.
\<close>

definition reopening :: "World \<Rightarrow> Private \<Rightarrow> (AudioOutput \<times> AudioFormat) option" where
  "reopening w s =
     (case audio_avctx s of
        None \<Rightarrow> None
      | Some c \<Rightarrow>
          if \<not> audio_decoder_open w then None
          else (case audio_device w s of
                  None \<Rightarrow> None
                | Some dev \<Rightarrow>
                    (let af = negotiate_format (lib w) dev (snd (correct_audio_channels (lib w) c))
                     in if audioFormat dev \<noteq> af then Some (dev, af) else None)))"

section \<open>Concrete players, devices and libraries\<close>

text \<open>
  The state that the constructor \<^verbatim>\<open>Private::Private()\<close> builds: no decoder, device or
  thread, audio output enabled; the two candidate lists depend on the build.
\<close>

definition constructed :: "VideoDecoderId list \<Rightarrow> AudioOutputId list \<Rightarrow> Private" where
  "constructed vcs aos =
     \<lparr>audio_track = 0, video_track = 0, audio_avctx = None, video_avctx = None,
      adec = None, vdec = None, ao = None, ao_enabled = True, ao_ids = aos, vc_ids = vcs,
      athread = None, vthread = None, frame_rate = Finite 0, next_obj = 0, trace = []\<rparr>"

text \<open>
  A library that knows the layouts mono (\<^verbatim>\<open>0x4\<close>), stereo (\<^verbatim>\<open>0x3\<close>) and 5.1 (\<^verbatim>\<open>0x3F\<close>),
  keeps FFmpeg's numbering of sample formats (the planar ones are 5 to 9) and of layouts.
\<close>

definition ffmpeg :: Lib where
  "ffmpeg =
     \<lparr>av_get_channel_layout_nb_channels =
        (\<lambda>l. if l = 4 then 1 else if l = 3 then 2 else if l = 63 then 6 else 0),
      av_get_default_channel_layout =
        (\<lambda>n. if n = 1 then 4 else if n = 2 then 3 else if n = 6 then 63 else 0),
      sampleFormatFromFFmpeg = (\<lambda>f. f),
      channelLayoutFromFFmpeg = (\<lambda>l. uint l),
      isPlanarFormat = (\<lambda>f. 5 \<le> f)\<rparr>"

text \<open>A device that plays only 16-bit stereo (sample format 1, layout 3), configured
  with the format \<open>cur\<close>, whose \<^verbatim>\<open>open()\<close> returns \<open>opens\<close>.\<close>

definition stereo_device :: "AudioFormat \<Rightarrow> bool \<Rightarrow> AudioOutput" where
  "stereo_device cur opens =
     \<lparr>audioFormat = cur,
      isSupported = (\<lambda>af. sampleFormat af = 1 \<and> channelLayout af = 3),
      isSupportedSampleFormat = (\<lambda>f. f = 1),
      isSupportedChannelLayout = (\<lambda>l. l = 3),
      preferredSampleFormat = 1,
      preferredChannelLayout = 3,
      open_result = (\<lambda>af. opens)\<rparr>"

text \<open>A device that plays 16-bit samples in stereo and in 5.1 (layout 63) and prefers 5.1.\<close>

definition surround_device :: "AudioFormat \<Rightarrow> bool \<Rightarrow> AudioOutput" where
  "surround_device cur opens =
     \<lparr>audioFormat = cur,
      isSupported = (\<lambda>af. sampleFormat af = 1 \<and> (channelLayout af = 3 \<or> channelLayout af = 63)),
      isSupportedSampleFormat = (\<lambda>f. f = 1),
      isSupportedChannelLayout = (\<lambda>l. l = 3 \<or> l = 63),
      preferredSampleFormat = 1,
      preferredChannelLayout = 63,
      open_result = (\<lambda>af. opens)\<rparr>"

text \<open>
  A world with three video decoder implementations 0, 1 and 2 that are all constructed
  and prepared; \<open>opens\<close> says which of them open. The audio decoder opens when
  \<open>aopen\<close>; the only audio output, 0, is \<open>dev\<close>.
\<close>

definition world :: "(VideoDecoderId \<Rightarrow> bool) \<Rightarrow> bool \<Rightarrow> AudioOutput option \<Rightarrow> World" where
  "world opens aopen dev =
     \<lparr>lib = ffmpeg, audio_decoder_open = aopen, audio_decoder_prepare = True,
      createAudioOutput = (\<lambda>i. if i = 0 then dev else None),
      createVideoDecoder = (\<lambda>vid. vid < 3),
      video_decoder_prepare = (\<lambda>vid. True),
      video_decoder_open = opens,
      avg_frame_rate = Finite 25\<rparr>"

text \<open>The codec context of a 16-bit stereo stream at 44100 Hz.\<close>

definition stereo_ctx :: AVCodecContext where
  "stereo_ctx = \<lparr>channels = 2, channel_layout = 3, sample_rate = 44100, sample_fmt = 1\<rparr>"

text \<open>A constructed player with the candidates \<open>vcs\<close> and the audio output 0, on a
  source that has an audio and a video stream.\<close>

definition player :: "VideoDecoderId list \<Rightarrow> Private" where
  "player vcs = (constructed vcs [0])\<lparr>audio_avctx := Some stereo_ctx, video_avctx := Some stereo_ctx\<rparr>"

text \<open>The world in which decoder 0 fails to open and decoders 1 and 2 work.\<close>

definition abc_world :: World where
  "abc_world = world (\<lambda>v. v \<noteq> 0) True None"

text \<open>The world in which no video decoder opens.\<close>

definition closed_world :: World where
  "closed_world = world (\<lambda>v. False) True None"

text \<open>The format of a device that has not been configured, and 16-bit stereo at 44100 Hz.\<close>

definition unconfigured :: AudioFormat where
  "unconfigured = \<lparr>sampleRate = 0, sampleFormat = 0, channelLayout = 0\<rparr>"

definition cd_format :: AudioFormat where
  "cd_format = \<lparr>sampleRate = 44100, sampleFormat = 1, channelLayout = 3\<rparr>"

text \<open>The world in which every decoder works and the audio output 0 is \<open>dev\<close>.\<close>

definition audio_world :: "AudioOutput \<Rightarrow> World" where
  "audio_world dev = world (\<lambda>v. True) True (Some dev)"

text \<open>A mono stream and a 5.1 stream.\<close>

definition mono_ctx :: AVCodecContext where
  "mono_ctx = \<lparr>channels = 1, channel_layout = 4, sample_rate = 44100, sample_fmt = 1\<rparr>"

definition surround_ctx :: AVCodecContext where
  "surround_ctx = \<lparr>channels = 6, channel_layout = 63, sample_rate = 48000, sample_fmt = 1\<rparr>"

text \<open>The world in which the only audio output is an unconfigured stereo device that
  cannot be opened.\<close>

definition broken_device_world :: World where
  "broken_device_world = audio_world (stereo_device unconfigured False)"

text \<open>The player after the setup of the video thread in \<open>abc_world\<close>, and the same player
  when the video stream has disappeared from the source.\<close>

definition playing :: Private where
  "playing = snd (setupVideoThread abc_world (player [0, 1, 2]))"

definition video_gone :: Private where
  "video_gone = playing\<lparr>video_avctx := None\<rparr>"

text \<open>The world in which the audio decoder does not open.\<close>

definition deaf_world :: World where
  "deaf_world = world (\<lambda>v. True) False None"

section \<open>Properties of the numeric functions\<close>

subsection \<open>Powers of two and the exponent of a rational number\<close>

lemma powi_less_imp: "(2::rat) powi a < 2 powi b \<Longrightarrow> a < b"
  using power_int_increasing [of b a "2::rat"] by (cases "a < b") simp_all

lemma powi_le_mono: "a \<le> b \<Longrightarrow> (2::rat) powi a \<le> 2 powi b"
  by (rule power_int_increasing) simp_all

lemma powi_split: "(2::rat) powi (a + b) = 2 powi a * 2 powi b"
  by (simp add: power_int_add)

lemma powi_pos: "0 < (2::rat) powi a"
  by simp

lemma bitlen_powi_bounds:
  assumes "0 < p"
  shows "(2::rat) powi (bitlen p - 1) \<le> of_int p" and "of_int p < (2::rat) powi bitlen p"
proof -
  from bitlen_bounds [OF assms]
  have a: "2 ^ nat (bitlen p - 1) \<le> p" and b: "p < 2 ^ nat (bitlen p)" by simp_all
  have ge: "1 \<le> bitlen p" using assms bitlen_eq_zero_iff [of p] bitlen_nonneg [of p] by linarith
  have "(2::rat) powi (bitlen p - 1) = of_int (2 ^ nat (bitlen p - 1))"
    using ge by (simp add: power_int_nonneg_exp)
  also have "\<dots> \<le> of_int p" using a by (simp only: of_int_le_iff)
  finally show "(2::rat) powi (bitlen p - 1) \<le> of_int p" .
  have "(of_int p :: rat) < of_int (2 ^ nat (bitlen p))" using b by (simp only: of_int_less_iff)
  also have "\<dots> = 2 powi bitlen p" using ge by (simp add: power_int_nonneg_exp)
  finally show "of_int p < (2::rat) powi bitlen p" .
qed

text \<open>\<open>binade x\<close> is the one exponent \<open>k\<close> with \<open>2 powi k \<le> \<bar>x\<bar> < 2 powi (k + 1)\<close>.\<close>

lemma binade_bounds:
  assumes "x \<noteq> 0"
  shows "2 powi binade x \<le> \<bar>x\<bar>" and "\<bar>x\<bar> < 2 powi (binade x + 1)"
proof -
  obtain p q where pq: "quotient_of \<bar>x\<bar> = (p, q)" by (cases "quotient_of \<bar>x\<bar>")
  have q: "0 < q" by (rule quotient_of_denom_pos [OF pq])
  have x: "\<bar>x\<bar> = of_int p / of_int q" by (rule quotient_of_div [OF pq])
  have "0 < \<bar>x\<bar>" using assms by simp
  then have p: "0 < p" using q unfolding x by (simp add: zero_less_divide_iff)
  define k where "k = bitlen p - bitlen q"
  have Q: "0 < (of_int q :: rat)" using q by simp
  note bp = bitlen_powi_bounds [OF p] and bq = bitlen_powi_bounds [OF q]
  have "of_int p < (2::rat) powi (k + 1) * 2 powi (bitlen q - 1)"
    using bp(2) by (simp add: k_def flip: powi_split)
  also have "\<dots> \<le> 2 powi (k + 1) * of_int q"
    using bq(1) by (intro mult_left_mono) simp_all
  finally have up: "\<bar>x\<bar> < 2 powi (k + 1)" unfolding x using Q by (simp add: pos_divide_less_eq)
  have "(2::rat) powi (k - 1) * of_int q < 2 powi (k - 1) * 2 powi bitlen q"
    using bq(2) by (intro mult_strict_left_mono) simp_all
  also have "\<dots> = 2 powi (bitlen p - 1)" by (simp add: k_def flip: powi_split)
  also have "\<dots> \<le> of_int p" by (rule bp(1))
  finally have lo: "2 powi (k - 1) \<le> \<bar>x\<bar>" unfolding x using Q by (simp add: pos_le_divide_eq)
  have b: "binade x = (if of_int p < of_int q * (2::rat) powi k then k - 1 else k)"
    by (simp add: binade_def pq k_def Let_def)
  show "2 powi binade x \<le> \<bar>x\<bar>"
  proof (cases "of_int p < of_int q * (2::rat) powi k")
    case True
    then show ?thesis using lo b by simp
  next
    case False
    then have "(2::rat) powi k * of_int q \<le> of_int p" by (simp add: mult.commute)
    then have "2 powi k \<le> \<bar>x\<bar>" unfolding x using Q by (simp add: pos_le_divide_eq)
    then show ?thesis using False b by simp
  qed
  show "\<bar>x\<bar> < 2 powi (binade x + 1)"
  proof (cases "of_int p < of_int q * (2::rat) powi k")
    case True
    then have "of_int p < (2::rat) powi k * of_int q" by (simp add: mult.commute)
    then have "\<bar>x\<bar> < 2 powi k" unfolding x using Q by (simp add: pos_divide_less_eq)
    then show ?thesis using True b by simp
  next
    case False
    then show ?thesis using up b by simp
  qed
qed

lemma binade_unique:
  assumes "2 powi k \<le> \<bar>x\<bar>" and "\<bar>x\<bar> < 2 powi (k + 1)"
  shows "binade x = k"
proof -
  have "0 < \<bar>x\<bar>" using assms(1) powi_pos [of k] by linarith
  then have x: "x \<noteq> 0" by simp
  have "(2::rat) powi binade x < 2 powi (k + 1)"
    using binade_bounds(1) [OF x] assms(2) by linarith
  then have "binade x < k + 1" by (rule powi_less_imp)
  moreover have "(2::rat) powi k < 2 powi (binade x + 1)"
    using binade_bounds(2) [OF x] assms(1) by linarith
  then have "k < binade x + 1" by (rule powi_less_imp)
  ultimately show ?thesis by simp
qed

lemma binade_range:
  assumes "1 \<le> x" and "x < 2 ^ n"
  shows "0 \<le> binade x" and "binade x < int n"
    and "2 powi binade x \<le> x" and "x < 2 powi (binade x + 1)"
proof -
  have x: "x \<noteq> 0" "\<bar>x\<bar> = x" using assms(1) by simp_all
  show lo: "2 powi binade x \<le> x" and up: "x < 2 powi (binade x + 1)"
    using binade_bounds [OF x(1)] by (simp_all add: x(2))
  have "(2::rat) powi 0 < 2 powi (binade x + 1)" using up assms(1) by simp
  then have "0 < binade x + 1" by (rule powi_less_imp)
  then show "0 \<le> binade x" by simp
  have "(2::rat) powi binade x < 2 powi int n" using lo assms(2) by simp
  then show "binade x < int n" by (rule powi_less_imp)
qed

subsection \<open>Rounding\<close>

lemma round_even_near: "\<bar>x - of_int m\<bar> < 1 / 2 \<Longrightarrow> round_even x = m"
proof -
  assume a: "\<bar>x - of_int m\<bar> < 1 / 2"
  show ?thesis
  proof (cases "of_int m \<le> x")
    case True
    then have "\<lfloor>x\<rfloor> = m" using a by (intro floor_unique) linarith+
    then show ?thesis using a True by (simp add: round_even_def Let_def)
  next
    case False
    with a have "of_int m - 1 \<le> x" "x < of_int m" by linarith+
    then have "\<lfloor>x\<rfloor> = m - 1" by (intro floor_unique) simp_all
    then show ?thesis using a False by (simp add: round_even_def Let_def)
  qed
qed

lemma round_even_err: "\<bar>of_int (round_even x) - x\<bar> \<le> 1 / 2"
proof -
  have "of_int \<lfloor>x\<rfloor> \<le> x" "x < of_int \<lfloor>x\<rfloor> + 1" by linarith+
  then show ?thesis by (auto simp add: round_even_def Let_def)
qed

lemma round_even_ge: "of_int n \<le> x \<Longrightarrow> n \<le> round_even x"
proof -
  assume "of_int n \<le> x"
  then have "n \<le> \<lfloor>x\<rfloor>" by (simp add: le_floor_iff)
  moreover have "\<lfloor>x\<rfloor> \<le> round_even x" by (simp add: round_even_def Let_def)
  ultimately show ?thesis by simp
qed

text \<open>
  Between \<open>2 powi k\<close> and \<open>2 powi (k + 1)\<close>, for a normal exponent \<open>k\<close> well below the
  overflow threshold, \<open>RN x\<close> is the nearest multiple of \<open>2 powi (k - 52)\<close>.
\<close>

lemma RN_finite_abs:
  assumes lo: "2 powi k \<le> \<bar>x\<bar>" and up: "\<bar>x\<bar> < 2 powi (k + 1)" and k: "- 1022 \<le> k" "k \<le> 1000"
  shows "RN x = Finite (of_int (round_even (x / 2 powi (k - 52))) * 2 powi (k - 52))"
proof -
  define u where "u = x / 2 powi (k - 52)"
  define m where "m = round_even u"
  have "0 < \<bar>x\<bar>" using lo powi_pos [of k] by linarith
  then have x: "x \<noteq> 0" by simp
  have b: "binade x = k" using lo up by (rule binade_unique)
  have "\<bar>u\<bar> = \<bar>x\<bar> / 2 powi (k - 52)" by (simp add: u_def)
  also have "\<dots> < 2 powi (k + 1) / 2 powi (k - 52)"
    using up by (simp add: divide_strict_right_mono)
  also have "\<dots> = 2 powi 53" by (simp flip: power_int_diff)
  finally have u53: "\<bar>u\<bar> < 2 ^ 53" by simp
  have "\<bar>of_int m - u\<bar> \<le> 1 / 2" unfolding m_def by (rule round_even_err)
  then have "\<bar>of_int m\<bar> \<le> \<bar>u\<bar> + 1 / 2" by linarith
  moreover have "\<bar>u\<bar> + 1 / 2 < 2 powi 54" using u53 by simp
  ultimately have "\<bar>of_int m\<bar> < (2::rat) powi 54" by (rule le_less_trans)
  then have "\<bar>of_int m\<bar> * 2 powi (k - 52) < (2::rat) powi 54 * 2 powi (k - 52)"
    by (intro mult_strict_right_mono) simp_all
  also have "\<dots> = 2 powi (k + 2)" using powi_split [of 54 "k - 52"] by (simp add: add.commute)
  also have "\<dots> \<le> 2 powi 1024" using k by (intro powi_le_mono) simp
  finally have "\<bar>of_int m\<bar> * 2 powi (k - 52) < (2::rat) ^ 1024" by simp
  moreover have "\<bar>of_int m * (2::rat) powi (k - 52)\<bar> = \<bar>of_int m\<bar> * 2 powi (k - 52)"
    by (simp add: abs_mult)
  ultimately have "\<not> 2 ^ 1024 \<le> \<bar>of_int m * (2::rat) powi (k - 52)\<bar>" by simp
  moreover have "max k (- 1022) = k" using k by simp
  ultimately show ?thesis using x
    by (simp add: RN_def b Let_def m_def u_def)
qed

lemma RN_eqI:
  assumes "2 powi k \<le> \<bar>x\<bar>" and "\<bar>x\<bar> < 2 powi (k + 1)" and "- 1022 \<le> k" "k \<le> 1000"
    and "\<bar>x / 2 powi (k - 52) - of_int m\<bar> < 1 / 2"
  shows "RN x = Finite (of_int m * 2 powi (k - 52))"
  using RN_finite_abs [OF assms(1-4)] round_even_near [OF assms(5)] by simp

lemma RN_finite:
  assumes lo: "2 powi k \<le> x" and up: "x < 2 powi (k + 1)" and k: "- 1022 \<le> k" "k \<le> 1000"
  shows "RN x = Finite (of_int (round_even (x / 2 powi (k - 52))) * 2 powi (k - 52))"
proof -
  have "0 < x" using lo powi_pos [of k] by linarith
  then have "\<bar>x\<bar> = x" by simp
  then show ?thesis using lo up k by (intro RN_finite_abs) simp_all
qed

text \<open>
  The relative error of a rounding is at most \<open>2\<^sup>-\<^sup>5\<^sup>3\<close>; a number that is not
  below an integer does not round below it; an integer of at most 53 bits is a double.
\<close>

lemma RN_err:
  assumes "1 \<le> x" and "x < 2 ^ 53"
  shows "\<exists>y. RN x = Finite y \<and> \<bar>y - x\<bar> \<le> x / 2 ^ 53"
proof -
  define k where "k = binade x"
  note r = binade_range [OF assms, folded k_def]
  define u where "u = x / 2 powi (k - 52)"
  define m where "m = round_even u"
  have R: "RN x = Finite (of_int m * 2 powi (k - 52))"
    unfolding m_def u_def using r by (intro RN_finite) simp_all
  have xu: "x = u * 2 powi (k - 52)" by (simp add: u_def)
  have "\<bar>of_int m - u\<bar> \<le> 1 / 2" unfolding m_def by (rule round_even_err)
  then have "\<bar>of_int m - u\<bar> * 2 powi (k - 52) \<le> 1 / 2 * 2 powi (k - 52)"
    by (intro mult_right_mono) simp_all
  moreover have "\<bar>of_int m * 2 powi (k - 52) - x\<bar> = \<bar>of_int m - u\<bar> * 2 powi (k - 52)"
    unfolding xu by (simp add: abs_mult flip: left_diff_distrib)
  moreover have "1 / 2 * (2::rat) powi (k - 52) = 2 powi k / 2 ^ 53"
    by (simp add: power_int_diff)
  moreover have "(2::rat) powi k / 2 ^ 53 \<le> x / 2 ^ 53"
    using r(3) by (simp add: divide_right_mono)
  ultimately have "\<bar>of_int m * 2 powi (k - 52) - x\<bar> \<le> x / 2 ^ 53" by linarith
  then show ?thesis using R by simp
qed

lemma RN_ge_int:
  assumes "of_int n \<le> x" and "1 \<le> x" and "x < 2 ^ 53" and "RN x = Finite y"
  shows "of_int n \<le> y"
proof -
  define k where "k = binade x"
  note r = binade_range [OF assms(2,3), folded k_def]
  define u where "u = x / 2 powi (k - 52)"
  define m where "m = round_even u"
  have "RN x = Finite (of_int m * 2 powi (k - 52))"
    unfolding m_def u_def using r by (intro RN_finite) simp_all
  then have y: "y = of_int m * 2 powi (k - 52)" using assms(4) by simp
  have e: "(2::rat) powi (k - 52) = 1 / 2 ^ nat (52 - k)"
    using r(2) power_int_minus_divide [of "2::rat" "52 - k"] by (simp add: power_int_nonneg_exp)
  have "of_int (n * 2 ^ nat (52 - k)) \<le> u"
    unfolding u_def e using assms(1) by (simp add: mult_right_mono)
  then have "n * 2 ^ nat (52 - k) \<le> m" unfolding m_def by (rule round_even_ge)
  then have "(of_int (n * 2 ^ nat (52 - k)) :: rat) \<le> of_int m" by (simp only: of_int_le_iff)
  then have "of_int n * 2 ^ nat (52 - k) \<le> (of_int m :: rat)" by simp
  then show ?thesis unfolding y e by (simp add: pos_le_divide_eq)
qed

lemma RN_of_int:
  assumes "1 \<le> n" and "n < 2 ^ 53"
  shows "RN (of_int n) = Finite (of_int n)"
proof -
  define x :: rat where "x = of_int n"
  have x: "1 \<le> x" "x < 2 ^ 53" using assms unfolding x_def
    by (simp, metis of_int_less_iff of_int_numeral of_int_power)
  define k where "k = binade x"
  note r = binade_range [OF x, folded k_def]
  have e: "(2::rat) powi (k - 52) = 1 / 2 ^ nat (52 - k)"
    using r(2) power_int_minus_divide [of "2::rat" "52 - k"] by (simp add: power_int_nonneg_exp)
  have "\<bar>x / 2 powi (k - 52) - of_int (n * 2 ^ nat (52 - k))\<bar> < 1 / 2"
    unfolding e x_def by simp
  moreover have "\<bar>x\<bar> = x" using x by simp
  ultimately have "RN x = Finite (of_int (n * 2 ^ nat (52 - k)) * 2 powi (k - 52))"
    using r by (intro RN_eqI) simp_all
  then show ?thesis unfolding e x_def by simp
qed

lemma double_of_int_exact: "1 \<le> n \<Longrightarrow> n \<le> 2147483647 \<Longrightarrow> double_of_int n = Finite (of_int n)"
  unfolding double_of_int_def by (rule RN_of_int) simp_all

text \<open>The two literals of the queue sizing, as doubles.\<close>

lemma RN_061803: "RN (61803 / 100000) = Finite (5566719355407575 / 9007199254740992)"
proof -
  have "RN (61803 / 100000) = Finite (of_int 5566719355407575 * 2 powi (- 1 - 52))"
    by (rule RN_eqI) simp_all
  then show ?thesis by simp
qed

lemma RN_161803: "RN (161803 / 100000) = Finite (1821739826268571 / 1125899906842624)"
proof -
  have "RN (161803 / 100000) = Finite (of_int 7286959305074284 * 2 powi (0 - 52))"
    by (rule RN_eqI) simp_all
  then show ?thesis by simp
qed

text \<open>
  The conversion to \<^verbatim>\<open>int\<close> of a rounded positive number that is far enough from the
  next integer.
\<close>

lemma int_of_qreal_floor:
  "0 \<le> x \<Longrightarrow> \<lfloor>x\<rfloor> \<le> 2147483647 \<Longrightarrow> int_of_qreal (Finite x) = \<lfloor>x\<rfloor>"
  by (simp add: int_of_qreal_def)

lemma RN_floor:
  assumes lo: "of_int n \<le> x" and up: "x * (1 + 1 / 2 ^ 53) < of_int n + 1"
    and n: "1 \<le> n" "n \<le> 2147483647"
  shows "int_of_qreal (RN x) = n"
proof -
  have n': "(1::rat) \<le> of_int n" "of_int n \<le> (2147483647::rat)" using n by simp_all
  have x: "1 \<le> x" "x < 2 ^ 53" using lo up n' by simp_all
  obtain y where y: "RN x = Finite y" and e: "\<bar>y - x\<bar> \<le> x / 2 ^ 53"
    using RN_err [OF x] by blast
  have "of_int n \<le> y" using lo x y by (rule RN_ge_int)
  moreover have "y \<le> x + x / 2 ^ 53" using e by linarith
  then have "y < of_int n + 1" using up by (simp add: algebra_simps)
  ultimately have "\<lfloor>y\<rfloor> = n" by (intro floor_unique)
  then show ?thesis using n \<open>of_int n \<le> y\<close> n' unfolding y
    by (simp add: int_of_qreal_floor)
qed

subsection \<open>The queue sizes\<close>

lemma qMax_24: "qMax (Finite 24) f = Finite r \<Longrightarrow> 24 \<le> r"
  by (cases f) (simp_all add: qMax_def split: if_splits)

lemma queue_min_eq:
  "qMax (Finite 24) f = Finite r \<Longrightarrow>
   queue_min f = int_of_qreal (RN (5566719355407575 / 9007199254740992 * r))"
  by (simp add: queue_min_def RN_061803)

lemma queue_max_eq:
  assumes "1 \<le> queue_min f" "queue_min f \<le> 2147483647"
  shows "queue_max f = int_of_qreal (RN (1821739826268571 / 1125899906842624 * of_int (queue_min f)))"
  by (simp add: queue_max_def RN_161803 double_of_int_exact [OF assms])

text \<open>
  A finite frame rate is \<^verbatim>\<open>av_q2d\<close> of a ratio of two C ints, so it is at most \<open>2\<^sup>3\<^sup>1\<close>. Up
  to that rate the double product \<^verbatim>\<open>0.61803*qMax<qreal>(24.0, frame_rate)\<close> is within
  \<open>r / 2\<^sup>5\<^sup>2\<close> of the exact product, \<open>r\<close> being the greater of 24 and the rate, and the
  threshold is in the range of an \<^verbatim>\<open>int\<close>.
\<close>

lemma queue_min_bounds:
  assumes f: "qMax (Finite 24) f = Finite r" and r: "24 \<le> r" "r \<le> 2147483648"
  shows "14 \<le> queue_min f" and "queue_min f \<le> 1327209319"
    and "\<lfloor>61803 / 100000 * r - r / 2 ^ 52\<rfloor> \<le> queue_min f"
    and "queue_min f \<le> \<lfloor>61803 / 100000 * r + r / 2 ^ 52\<rfloor>"
proof -
  define x where "x = 5566719355407575 / 9007199254740992 * r"
  have x: "1 \<le> x" "x < 2 ^ 53" using r by (simp_all add: x_def)
  obtain y where y: "RN x = Finite y" and e: "\<bar>y - x\<bar> \<le> x / 2 ^ 53"
    using RN_err [OF x] by blast
  have "of_int 14 \<le> x" using r by (simp add: x_def)
  then have y14: "of_int 14 \<le> y" using x y by (rule RN_ge_int)
  have lo: "61803 / 100000 * r - r / 2 ^ 52 \<le> y" and up: "y \<le> 61803 / 100000 * r + r / 2 ^ 52"
  proof -
    from e have "x - x / 2 ^ 53 \<le> y" "y \<le> x + x / 2 ^ 53" by linarith+
    then show "61803 / 100000 * r - r / 2 ^ 52 \<le> y" "y \<le> 61803 / 100000 * r + r / 2 ^ 52"
      using r by (simp_all add: x_def)
  qed
  have "y \<le> 1327209319 + 1 / 2" using up r by simp
  then have fl: "\<lfloor>y\<rfloor> \<le> 1327209319" by (simp add: floor_le_iff)
  have q: "queue_min f = \<lfloor>y\<rfloor>"
    unfolding queue_min_eq [OF f] x_def [symmetric] y using y14 fl
    by (intro int_of_qreal_floor) simp_all
  show "14 \<le> queue_min f" unfolding q using y14 by (simp add: le_floor_iff)
  show "queue_min f \<le> 1327209319" unfolding q by (rule fl)
  show "\<lfloor>61803 / 100000 * r - r / 2 ^ 52\<rfloor> \<le> queue_min f"
    unfolding q using lo by (rule floor_mono)
  show "queue_min f \<le> \<lfloor>61803 / 100000 * r + r / 2 ^ 52\<rfloor>"
    unfolding q using up by (rule floor_mono)
qed

text \<open>
  The second product, rounded and truncated, is the floor of the exact product: the
  double \<^verbatim>\<open>1.61803\<close> is not less than the decimal number, and the exact product is a
  multiple of \<open>1 / 100000\<close>, too far below the next integer for the rounding errors to
  reach it.
\<close>

lemma queue_max_exact:
  assumes t: "14 \<le> queue_min f" "queue_min f \<le> 1327209319"
  shows "queue_max f = \<lfloor>161803 / 100000 * (of_int (queue_min f) :: rat)\<rfloor>"
    and "queue_max f = 161803 * queue_min f div 100000"
proof -
  define t where "t = queue_min f"
  define n where "n = 161803 * t div 100000"
  define m where "m = 161803 * t mod 100000"
  have "161803 * t = 100000 * n + m" by (simp add: n_def m_def)
  then have "(of_int (161803 * t) :: rat) = of_int (100000 * n + m)" by (simp only:)
  then have a: "161803 * (of_int t :: rat) = 100000 * of_int n + of_int m" by simp
  have "0 \<le> m" "m \<le> 99999" by (simp_all add: m_def) 
  then have m: "(0::rat) \<le> of_int m" "of_int m \<le> (99999::rat)" by simp_all
  have t': "(14::rat) \<le> of_int t" "of_int t \<le> (1327209319::rat)" using t by (simp_all add: t_def)
  have n: "1 \<le> n" "n \<le> 2147483647" using t unfolding n_def t_def by simp_all
  have "int_of_qreal (RN (1821739826268571 / 1125899906842624 * of_int t)) = n"
  proof (rule RN_floor)
    show "of_int n \<le> 1821739826268571 / 1125899906842624 * (of_int t :: rat)"
      using a m t' by simp
    show "1821739826268571 / 1125899906842624 * (of_int t :: rat) * (1 + 1 / 2 ^ 53) < of_int n + 1"
      using a m t' by simp
  qed (rule n)+
  then have q: "queue_max f = n" using t by (simp add: queue_max_eq t_def)
  show "queue_max f = 161803 * queue_min f div 100000" using q by (simp add: n_def t_def)
  have "\<lfloor>161803 / 100000 * (of_int t :: rat)\<rfloor> = \<lfloor>of_int (161803 * t) / (of_int 100000 :: rat)\<rfloor>"
    by simp
  also have "\<dots> = n" unfolding n_def by (rule floor_divide_of_int_eq)
  finally show "queue_max f = \<lfloor>161803 / 100000 * (of_int (queue_min f) :: rat)\<rfloor>"
    using q by (simp add: t_def)
qed

lemma queue_sizes_low_rate:
  assumes "\<not> qreal_less (Finite 24) f"
  shows "queue_min f = 14 \<and> queue_max f = 22"
proof -
  have f: "qMax (Finite 24) f = Finite 24" using assms by (simp add: qMax_def)
  have "int_of_qreal (RN (5566719355407575 / 9007199254740992 * 24)) = 14"
    by (rule RN_floor) simp_all
  then have m: "queue_min f = 14" by (simp add: queue_min_eq [OF f])
  then have "queue_max f = 161803 * 14 div 100000" using queue_max_exact(2) [of f] by simp
  then show ?thesis using m by simp
qed

text \<open>
  The frame rate 1700000/61803 (about 27.5 frames per second): the double product is
  17, the exact product of the decimal 0.61803 and this rate is below 17. The sizes
  are 17 and 27.
\<close>

lemma av_q2d_1700000_61803: "av_q2d 1700000 61803 = Finite (7742463317446001 / 281474976710656)"
proof -
  have "RN (1700000 / 61803) = Finite (of_int 7742463317446001 * 2 powi (4 - 52))"
    by (rule RN_eqI) simp_all
  then show ?thesis
    using double_of_int_exact [of 1700000] double_of_int_exact [of 61803]
    by (simp add: av_q2d_def)
qed

lemma queue_min_1700000_61803: "queue_min (Finite (7742463317446001 / 281474976710656)) = 17"
proof -
  have "RN (5566719355407575 / 9007199254740992 * (7742463317446001 / 281474976710656))
      = Finite (of_int 4785074604081152 * 2 powi (4 - 52))"
    by (rule RN_eqI) simp_all
  then show ?thesis
    using queue_min_eq [of "Finite (7742463317446001 / 281474976710656)" "7742463317446001 / 281474976710656"]
    by (simp add: qMax_def int_of_qreal_def)
qed

lemma queue_min_spec_1700000_61803:
  "\<lfloor>61803 / 100000 * max 24 (7742463317446001 / 281474976710656 :: rat)\<rfloor> = 16"
  by (rule floor_unique) simp_all

lemma queue_max_1700000_61803: "queue_max (Finite (7742463317446001 / 281474976710656)) = 27"
  using queue_max_exact(2) [of "Finite (7742463317446001 / 281474976710656)"]
  by (simp add: queue_min_1700000_61803)

text \<open>
  An infinite frame rate (\<^verbatim>\<open>av_q2d\<close> of a ratio with denominator 0) makes the first
  product infinite. Its conversion to \<^verbatim>\<open>int\<close> is undefined in C++; with the value that
  x86-64 gives, both sizes are \<open>- 2\<^sup>3\<^sup>1\<close>.
\<close>

lemma queue_sizes_infinite_rate:
  "queue_min PosInf = - 2147483648 \<and> queue_max PosInf = - 2147483648"
proof -
  have m: "queue_min PosInf = - 2147483648"
    by (simp add: queue_min_def RN_061803 qMax_def signed_inf_def qreal_sgn_def int_of_qreal_def)
  have "RN (- 2147483648) = Finite (of_int (- 4503599627370496) * 2 powi (31 - 52))"
    by (rule RN_eqI) simp_all
  then have d: "double_of_int (- 2147483648) = Finite (- 2147483648)"
    by (simp add: double_of_int_def)
  have "RN (1821739826268571 / 1125899906842624 * - 2147483648)
      = Finite (of_int (- 7286959305074284) * 2 powi (31 - 52))"
    by (rule RN_eqI) simp_all
  then have "queue_max PosInf = - 2147483648"
    by (simp add: queue_max_def m d RN_161803 int_of_qreal_def)
  then show ?thesis using m by simp
qed

subsection \<open>computeNotifyPrecision\<close>

lemma computeNotifyPrecision_range:
  "20 \<le> computeNotifyPrecision duration fps \<and> computeNotifyPrecision duration fps \<le> 500"
proof -
  have "0 < duration \<Longrightarrow> duration \<le> 20000 \<Longrightarrow> c_div duration 80 \<le> 250"
    by (simp add: c_div_def)
  then show ?thesis by (auto simp add: computeNotifyPrecision_def Let_def)
qed

lemma computeNotifyPrecision_15000_30: "computeNotifyPrecision 15000 (Finite 30) = 33"
proof -
  have "int_of_qreal (RN (1000 / 30)) = 33" by (rule RN_floor) simp_all
  then show ?thesis
    using double_of_int_exact [of 1000] by (simp add: computeNotifyPrecision_def)
qed

text \<open>
  At the frame rate \<^verbatim>\<open>1000.0/33.0\<close> the quotient \<^verbatim>\<open>qreal(dt*2)/fps\<close> rounds to the double
  33, where the exact quotient of 1000 and this rate is below 33.
\<close>

lemma computeNotifyPrecision_1000_33:
  "qreal_div (Finite 1000) (Finite 33) = Finite (4264772374403879 / 140737488355328)
   \<and> computeNotifyPrecision 15000 (Finite (4264772374403879 / 140737488355328)) = 33"
proof -
  have "RN (1000 / 33) = Finite (of_int 8529544748807758 * 2 powi (4 - 52))"
    by (rule RN_eqI) simp_all
  then have a: "qreal_div (Finite 1000) (Finite 33) = Finite (4264772374403879 / 140737488355328)"
    by simp
  have "RN (1000 / (4264772374403879 / 140737488355328))
      = Finite (of_int 4644337115725824 * 2 powi (5 - 52))"
    by (rule RN_eqI) simp_all
  then have "computeNotifyPrecision 15000 (Finite (4264772374403879 / 140737488355328)) = 33"
    using double_of_int_exact [of 1000] by (simp add: computeNotifyPrecision_def int_of_qreal_def)
  then show ?thesis using a by simp
qed

text \<open>
  Claim C4. The claim puts the first threshold at 10 minutes, as the comment in the
  source does; the constant in the source is \<^verbatim>\<open>60*1000\<close>, one minute. A medium of two
  minutes at 25 frames per second gets 500 ms where the claim says 250 ms.
\<close>

theorem computeNotifyPrecision_two_minutes:
  "computeNotifyPrecision 120000 (Finite 25) = 500"
  by (simp add: computeNotifyPrecision_def)

text \<open>
  Claim C5, as stated: the three values are 500, 62 and 250. The third is not what the
  function returns.
\<close>

theorem computeNotifyPrecision_15000_30_not_250:
  "computeNotifyPrecision 15000 (Finite 30) \<noteq> 250"
  using computeNotifyPrecision_15000_30 by simp

text \<open>
  Claim C5, amended: \<open>computeNotifyPrecision\<close> returns 500 for (duration 0, fps 0), 62
  for (duration 5000, fps 0) and 33 for (duration 15000, fps 30).
\<close>

theorem computeNotifyPrecision_examples:
  "computeNotifyPrecision 0 (Finite 0) = 500
   \<and> computeNotifyPrecision 5000 (Finite 0) = 62
   \<and> computeNotifyPrecision 15000 (Finite 30) = 33"
  using computeNotifyPrecision_15000_30
  by (simp add: computeNotifyPrecision_def c_div_def)

section \<open>Properties of correct\_audio\_channels\<close>

text \<open>
  Claim C10. \<open>correct_audio_channels\<close> returns true exactly when, after the call, both
  the channel count and the channel layout are positive. It derives the channel count
  from a nonzero layout when the count is not positive, and a default layout from a
  positive count when the layout is 0; it changes no field that is positive, nor the
  sample rate or format; when the count is not positive and the layout is 0 it changes
  nothing and returns false.
\<close>

theorem correct_audio_channels_fills_missing_field:
  assumes "correct_audio_channels l ctx = (r, ctx')"
  shows "(r \<longleftrightarrow> 0 < channels ctx' \<and> 0 < channel_layout ctx')
    \<and> (channels ctx \<le> 0 \<and> channel_layout ctx \<noteq> 0 \<longrightarrow>
         ctx' = ctx\<lparr>channels := av_get_channel_layout_nb_channels l (channel_layout ctx)\<rparr>)
    \<and> (0 < channels ctx \<and> channel_layout ctx = 0 \<longrightarrow>
         ctx' = ctx\<lparr>channel_layout := av_get_default_channel_layout l (channels ctx)\<rparr>)
    \<and> (0 < channels ctx \<longrightarrow> channels ctx' = channels ctx)
    \<and> (0 < channel_layout ctx \<longrightarrow> channel_layout ctx' = channel_layout ctx)
    \<and> (channels ctx \<le> 0 \<and> channel_layout ctx = 0 \<longrightarrow> ctx' = ctx \<and> \<not> r)
    \<and> sample_rate ctx' = sample_rate ctx \<and> sample_fmt ctx' = sample_fmt ctx"
  using assms
  by (auto simp add: correct_audio_channels_def Let_def word_greater_zero_iff split: if_splits)

theorem correct_audio_channels_fills_missing_field_witness:
  "correct_audio_channels ffmpeg \<lparr>channels = 0, channel_layout = 63, sample_rate = 48000, sample_fmt = 1\<rparr>
     = (True, \<lparr>channels = 6, channel_layout = 63, sample_rate = 48000, sample_fmt = 1\<rparr>)
   \<and> correct_audio_channels ffmpeg \<lparr>channels = 2, channel_layout = 0, sample_rate = 48000, sample_fmt = 1\<rparr>
     = (True, \<lparr>channels = 2, channel_layout = 3, sample_rate = 48000, sample_fmt = 1\<rparr>)
   \<and> correct_audio_channels ffmpeg \<lparr>channels = 0, channel_layout = 0, sample_rate = 48000, sample_fmt = 1\<rparr>
     = (False, \<lparr>channels = 0, channel_layout = 0, sample_rate = 48000, sample_fmt = 1\<rparr>)"
proof -
  let ?a = "\<lparr>channels = 0, channel_layout = 63, sample_rate = 48000, sample_fmt = 1\<rparr>"
  let ?b = "\<lparr>channels = 2, channel_layout = 0, sample_rate = 48000, sample_fmt = 1\<rparr>"
  let ?c = "\<lparr>channels = 0, channel_layout = 0, sample_rate = 48000, sample_fmt = 1\<rparr>"
  obtain ra a' where a: "correct_audio_channels ffmpeg ?a = (ra, a')" by (cases "correct_audio_channels ffmpeg ?a")
  obtain rb b' where b: "correct_audio_channels ffmpeg ?b = (rb, b')" by (cases "correct_audio_channels ffmpeg ?b")
  obtain rc c' where c: "correct_audio_channels ffmpeg ?c = (rc, c')" by (cases "correct_audio_channels ffmpeg ?c")
  from correct_audio_channels_fills_missing_field [OF a]
  have "ra \<and> a' = ?a\<lparr>channels := 6\<rparr>" by (simp add: ffmpeg_def)
  moreover from correct_audio_channels_fills_missing_field [OF b]
  have "rb \<and> b' = ?b\<lparr>channel_layout := 3\<rparr>" by (simp add: ffmpeg_def)
  moreover from correct_audio_channels_fills_missing_field [OF c]
  have "\<not> rc \<and> c' = ?c" by simp
  ultimately show ?thesis using a b c by simp
qed

section \<open>Reasoning about traces\<close>

lemma trace_emit: "trace (emit es s) = trace s @ es"
  by (simp add: emit_def)

lemma created_objs_append: "created_objs k (a @ b) = created_objs k a @ created_objs k b"
  by (simp add: created_objs_def)

lemma deleted_objs_append: "deleted_objs k (a @ b) = deleted_objs k a @ deleted_objs k b"
  by (simp add: deleted_objs_def)

lemma tried_ids_append: "tried_ids (a @ b) = tried_ids a @ tried_ids b"
  by (simp add: tried_ids_def)

lemma errors_append: "errors (a @ b) = errors a @ errors b"
  by (simp add: errors_def)

lemma reopen_calls_append: "reopen_calls (a @ b) = reopen_calls a @ reopen_calls b"
  by (simp add: reopen_calls_def)

lemma live_after_append: "live_after k L (a @ b) = live_after k (live_after k L a) b"
  by (induction a arbitrary: L) simp_all

lemma at_most_one_live_start: "at_most_one_live k L tr \<Longrightarrow> card L \<le> 1"
  by (cases tr) simp_all

lemma at_most_one_live_append:
  "at_most_one_live k L (a @ b) \<longleftrightarrow> at_most_one_live k L a \<and> at_most_one_live k (live_after k L a) b"
  by (induction a arbitrary: L) (auto dest: at_most_one_live_start)

lemma try_video_decoders_vdec:
  "vdec (try_video_decoders w ids s) =
     (case find (decoder_works w) ids of
        None \<Rightarrow> vdec s
      | Some vid \<Rightarrow>
          Some (next_obj s + length (filter (createVideoDecoder w) (takeWhile (\<lambda>v. \<not> decoder_works w v) ids)), vid))"
  by (induction ids arbitrary: s) (auto simp add: Let_def emit_def decoder_works_def split: option.splits)

lemma try_video_decoders_tried:
  "tried_ids (trace (try_video_decoders w ids s)) =
     tried_ids (trace s) @ takeWhile (\<lambda>v. \<not> decoder_works w v) ids
       @ (case find (decoder_works w) ids of None \<Rightarrow> [] | Some vid \<Rightarrow> [vid])"
  by (induction ids arbitrary: s) (auto simp add: Let_def emit_def decoder_works_def tried_ids_def split: option.splits)

lemma emit_fields:
  "trace (emit es s) = trace s @ es"
  "next_obj (emit es s) = next_obj s"
  "vdec (emit es s) = vdec s"
  "adec (emit es s) = adec s"
  "ao (emit es s) = ao s"
  "athread (emit es s) = athread s"
  "vthread (emit es s) = vthread s"
  "audio_avctx (emit es s) = audio_avctx s"
  "video_avctx (emit es s) = video_avctx s"
  "frame_rate (emit es s) = frame_rate s"
  "ao_enabled (emit es s) = ao_enabled s"
  "ao_ids (emit es s) = ao_ids s"
  "vc_ids (emit es s) = vc_ids s"
  by (simp_all add: emit_def)

lemma created_objs_simps:
  "created_objs k [] = []"
  "created_objs k (e # es) = created_by k e @ created_objs k es"
  by (simp_all add: created_objs_def)

lemma deleted_objs_simps:
  "deleted_objs k [] = []"
  "deleted_objs k (e # es) = deleted_by k e @ deleted_objs k es"
  by (simp_all add: deleted_objs_def)

lemmas obs_simps = emit_fields created_objs_simps deleted_objs_simps created_objs_append
  deleted_objs_append created_by_def deleted_by_def

lemma try_video_decoders_objs:
  "\<exists>failed.
     created_objs VideoStream (trace (try_video_decoders w ids s)) =
       created_objs VideoStream (trace s) @ failed
         @ (case find (decoder_works w) ids of None \<Rightarrow> []
            | Some vid \<Rightarrow> [next_obj s + length failed])
     \<and> deleted_objs VideoStream (trace (try_video_decoders w ids s)) =
       deleted_objs VideoStream (trace s) @ failed
     \<and> length failed = length (filter (createVideoDecoder w) (takeWhile (\<lambda>v. \<not> decoder_works w v) ids))"
proof (induction ids arbitrary: s)
  case Nil
  then show ?case by simp
next
  case (Cons vid vids)
  consider (absent) "\<not> createVideoDecoder w vid"
    | (fails) "createVideoDecoder w vid" "\<not> decoder_works w vid"
    | (works) "createVideoDecoder w vid" "decoder_works w vid"
    by blast
  then show ?case
  proof cases
    case absent
    then have nw: "\<not> decoder_works w vid" by (simp add: decoder_works_def)
    let ?s1 = "emit [DecoderCreate vid None] s"
    from Cons [of ?s1] obtain failed where
      f: "created_objs VideoStream (trace (try_video_decoders w vids ?s1)) =
            created_objs VideoStream (trace ?s1) @ failed
              @ (case find (decoder_works w) vids of None \<Rightarrow> [] | Some v \<Rightarrow> [next_obj ?s1 + length failed])"
         "deleted_objs VideoStream (trace (try_video_decoders w vids ?s1)) =
            deleted_objs VideoStream (trace ?s1) @ failed"
         "length failed = length (filter (createVideoDecoder w) (takeWhile (\<lambda>v. \<not> decoder_works w v) vids))"
      by blast
    show ?thesis
      by (rule exI [of _ failed]) (use absent nw f in \<open>simp add: obs_simps split: option.splits\<close>)
  next
    case fails
    let ?d = "next_obj s"
    let ?s1 = "(emit [DecoderCreate vid (Some ?d), SetCodecContext ?d, SetOptions ?d] s)\<lparr>next_obj := Suc ?d\<rparr>"
    let ?s2 = "if video_decoder_prepare w vid
               then emit [DecoderPrepare ?d True, DecoderOpen ?d False, DecoderDelete VideoStream ?d] ?s1
               else emit [DecoderPrepare ?d False, DecoderDelete VideoStream ?d] ?s1"
    have eq: "try_video_decoders w (vid # vids) s = try_video_decoders w vids ?s2"
      using fails by (simp add: decoder_works_def Let_def)
    from Cons [of ?s2] obtain failed where
      f: "created_objs VideoStream (trace (try_video_decoders w vids ?s2)) =
            created_objs VideoStream (trace ?s2) @ failed
              @ (case find (decoder_works w) vids of None \<Rightarrow> [] | Some v \<Rightarrow> [next_obj ?s2 + length failed])"
         "deleted_objs VideoStream (trace (try_video_decoders w vids ?s2)) =
            deleted_objs VideoStream (trace ?s2) @ failed"
         "length failed = length (filter (createVideoDecoder w) (takeWhile (\<lambda>v. \<not> decoder_works w v) vids))"
      by blast
    have s2: "created_objs VideoStream (trace ?s2) = created_objs VideoStream (trace s) @ [?d]"
      "deleted_objs VideoStream (trace ?s2) = deleted_objs VideoStream (trace s) @ [?d]"
      "next_obj ?s2 = Suc ?d"
      by (simp_all add: obs_simps)
    show ?thesis
      by (rule exI [of _ "?d # failed"])
         (use fails in \<open>simp add: eq f s2 emit_fields del: try_video_decoders.simps split: option.splits\<close>)
  next
    case works
    then show ?thesis
      by (intro exI [of _ "[]"]) (simp add: decoder_works_def Let_def obs_simps)
  qed
qed

lemma live_step_neutral:
  "created_by k e = [] \<Longrightarrow> deleted_by k e = [] \<Longrightarrow> live_step k L e = L"
  by (simp add: live_step_def)

lemma live_after_neutral:
  "\<forall>e\<in>set es. created_by k e = [] \<and> deleted_by k e = [] \<Longrightarrow> live_after k L es = L"
  by (induction es arbitrary: L) (simp_all add: live_step_neutral)

lemma at_most_one_live_neutral:
  "\<forall>e\<in>set es. created_by k e = [] \<and> deleted_by k e = [] \<Longrightarrow>
   at_most_one_live k L es = (card L \<le> 1)"
  by (induction es arbitrary: L) (simp_all add: live_step_neutral)

lemma at_most_one_live_end: "at_most_one_live k L tr \<Longrightarrow> card (live_after k L tr) \<le> 1"
  by (induction tr arbitrary: L) simp_all

lemma history_neutral:
  assumes "\<forall>e\<in>set es. created_by k e = [] \<and> deleted_by k e = []"
  shows "at_most_one_live k L (tr @ es) = at_most_one_live k L tr"
    and "live_after k L (tr @ es) = live_after k L tr"
  using assms at_most_one_live_end [of k L tr]
  by (auto simp add: at_most_one_live_append live_after_append live_after_neutral
      at_most_one_live_neutral)

lemma owned_emit: "owned k (emit es s) = owned k s"
  by (cases k) (simp_all add: owned_def emit_def)

lemma owned_update:
  "owned k (s\<lparr>athread := th\<rparr>) = owned k s"
  "owned k (s\<lparr>vthread := th\<rparr>) = owned k s"
  "owned k (s\<lparr>audio_avctx := c\<rparr>) = owned k s"
  "owned k (s\<lparr>frame_rate := f\<rparr>) = owned k s"
  "owned k (s\<lparr>ao := a\<rparr>) = owned k s"
  "owned k (s\<lparr>next_obj := n\<rparr>) = owned k s"
  by (cases k; simp add: owned_def)+

lemma decoder_inv_emit:
  "\<forall>e\<in>set es. created_by k e = [] \<and> deleted_by k e = [] \<Longrightarrow>
   decoder_inv k (emit es s) = decoder_inv k s"
  by (simp add: decoder_inv_def owned_emit trace_emit history_neutral)

lemma decoder_inv_update:
  "decoder_inv k (s\<lparr>athread := th\<rparr>) = decoder_inv k s"
  "decoder_inv k (s\<lparr>vthread := th\<rparr>) = decoder_inv k s"
  "decoder_inv k (s\<lparr>audio_avctx := c\<rparr>) = decoder_inv k s"
  "decoder_inv k (s\<lparr>frame_rate := f\<rparr>) = decoder_inv k s"
  "decoder_inv k (s\<lparr>ao := a\<rparr>) = decoder_inv k s"
  "decoder_inv k (s\<lparr>next_obj := n\<rparr>) = decoder_inv k s"
  by (simp_all add: decoder_inv_def owned_update)

lemma decoder_inv_initAudioStatistics:
  "decoder_inv k (initAudioStatistics w s) = decoder_inv k s"
  by (simp add: initAudioStatistics_def decoder_inv_emit created_by_def deleted_by_def
      decoder_inv_update split: option.splits)

lemma decoder_inv_initVideoStatistics:
  "decoder_inv k (initVideoStatistics w s) = decoder_inv k s"
  by (simp add: initVideoStatistics_def decoder_inv_emit created_by_def deleted_by_def
      decoder_inv_update split: option.splits)

lemma decoder_inv_audio_reset: "decoder_inv k (audio_reset w s) = decoder_inv k s"
  by (simp add: audio_reset_def Let_def decoder_inv_initAudioStatistics decoder_inv_emit
      created_by_def deleted_by_def decoder_inv_update emit_fields split: option.splits)

lemma decoder_inv_video_reset: "decoder_inv k (video_reset w s) = decoder_inv k s"
  by (simp add: video_reset_def Let_def decoder_inv_initVideoStatistics decoder_inv_emit
      created_by_def deleted_by_def decoder_inv_update emit_fields split: option.splits)

lemmas neutral_simps = created_by_def deleted_by_def

lemma decoder_inv_new_audio_decoder:
  "decoder_inv k s \<Longrightarrow> decoder_inv k (snd (new_audio_decoder s))"
proof (cases k)
  case VideoStream
  then show "decoder_inv k s \<Longrightarrow> decoder_inv k (snd (new_audio_decoder s))"
    by (simp add: new_audio_decoder_def Let_def decoder_inv_def owned_def emit_fields
        history_neutral neutral_simps split: option.splits)
next
  case AudioStream
  assume inv: "decoder_inv k s"
  show "decoder_inv k (snd (new_audio_decoder s))"
  proof (cases "adec s")
    case None
    then show ?thesis
      using inv AudioStream
      by (simp add: new_audio_decoder_def Let_def decoder_inv_def owned_def emit_fields
          at_most_one_live_append live_after_append live_step_def neutral_simps)
  next
    case (Some old)
    then show ?thesis
      using inv AudioStream
      by (simp add: new_audio_decoder_def Let_def decoder_inv_def owned_def emit_fields
          at_most_one_live_append live_after_append live_step_def neutral_simps)
  qed
qed

lemma decoder_inv_create_audio_output:
  "decoder_inv k (create_audio_output w ids s) = decoder_inv k s"
  by (induction ids arbitrary: s)
     (simp_all add: decoder_inv_update decoder_inv_emit neutral_simps split: option.splits)

lemma decoder_inv_setup_audio_output:
  "decoder_inv k (snd (snd (setup_audio_output w ctx s))) = decoder_inv k s"
  by (simp add: setup_audio_output_def Let_def decoder_inv_update decoder_inv_emit neutral_simps
      split: option.splits)

lemma decoder_inv_audio_attach:
  "decoder_inv k (audio_attach w d ctx s) = decoder_inv k s"
  by (simp add: audio_attach_def Let_def decoder_inv_update decoder_inv_emit neutral_simps
      split: option.splits)

text \<open>The four ways through \<open>setupAudioThread\<close>.\<close>

lemma setupAudioThread_cases [case_names absent open_failed device_failed attached]:
  obtains
    (absent) "audio_avctx (audio_reset w s) = None"
      "setupAudioThread w s = (False, audio_reset w s)"
  | (open_failed) ctx d s2 where
      "audio_avctx (audio_reset w s) = Some ctx"
      "new_audio_decoder (audio_reset w s) = (d, s2)"
      "\<not> audio_decoder_open w"
      "setupAudioThread w s = (False, emit [DecoderOpen d False, EmitError AudioCodecNotFound] s2)"
  | (device_failed) ctx d s2 s4 ctx5 s5 where
      "audio_avctx (audio_reset w s) = Some ctx"
      "new_audio_decoder (audio_reset w s) = (d, s2)"
      "audio_decoder_open w"
      "s4 = (if ao s2 = None \<and> ao_enabled s2
             then create_audio_output w (ao_ids s2) (emit [DecoderOpen d True] s2)
             else emit [DecoderOpen d True] s2)"
      "setup_audio_output w ctx s4 = (False, ctx5, s5)"
      "setupAudioThread w s = (False, s5)"
  | (attached) ctx d s2 s4 ctx5 s5 where
      "audio_avctx (audio_reset w s) = Some ctx"
      "new_audio_decoder (audio_reset w s) = (d, s2)"
      "audio_decoder_open w"
      "s4 = (if ao s2 = None \<and> ao_enabled s2
             then create_audio_output w (ao_ids s2) (emit [DecoderOpen d True] s2)
             else emit [DecoderOpen d True] s2)"
      "setup_audio_output w ctx s4 = (True, ctx5, s5)"
      "setupAudioThread w s = (True, audio_attach w d ctx5 s5)"
proof (cases "audio_avctx (audio_reset w s)")
  case None
  then show ?thesis using absent by (simp add: setupAudioThread_def Let_def)
next
  case (Some ctx)
  obtain d s2 where n: "new_audio_decoder (audio_reset w s) = (d, s2)"
    by (cases "new_audio_decoder (audio_reset w s)")
  show ?thesis
  proof (cases "audio_decoder_open w")
    case False
    then show ?thesis using open_failed [OF Some n] Some n
      by (simp add: setupAudioThread_def Let_def)
  next
    case True
    define s4 where "s4 = (if ao s2 = None \<and> ao_enabled s2
             then create_audio_output w (ao_ids s2) (emit [DecoderOpen d True] s2)
             else emit [DecoderOpen d True] s2)"
    obtain ok ctx5 s5 where o: "setup_audio_output w ctx s4 = (ok, ctx5, s5)"
      by (cases "setup_audio_output w ctx s4")
    have r: "setupAudioThread w s = (if \<not> ok then (False, s5) else (True, audio_attach w d ctx5 s5))"
      using Some n True o
      by (auto simp add: setupAudioThread_def Let_def s4_def emit_fields split: if_splits)
    show ?thesis
    proof (cases ok)
      case True
      with r o show ?thesis using attached [OF Some n \<open>audio_decoder_open w\<close> s4_def] by simp
    next
      case False
      with r o show ?thesis using device_failed [OF Some n \<open>audio_decoder_open w\<close> s4_def] by simp
    qed
  qed
qed

lemma decoder_inv_setupAudioThread:
  assumes "decoder_inv k s"
  shows "decoder_inv k (snd (setupAudioThread w s))"
proof (cases rule: setupAudioThread_cases [of w s])
  case absent
  then show ?thesis using assms by (simp add: decoder_inv_audio_reset)
next
  case (open_failed ctx d s2)
  have "decoder_inv k s2"
    using decoder_inv_new_audio_decoder [of k "audio_reset w s"] assms open_failed(2)
    by (simp add: decoder_inv_audio_reset)
  then show ?thesis using open_failed(4) by (simp add: decoder_inv_emit neutral_simps)
next
  case (device_failed ctx d s2 s4 ctx5 s5)
  have "decoder_inv k s2"
    using decoder_inv_new_audio_decoder [of k "audio_reset w s"] assms device_failed(2)
    by (simp add: decoder_inv_audio_reset)
  then have "decoder_inv k s4"
    by (simp add: device_failed(4) decoder_inv_create_audio_output decoder_inv_emit neutral_simps)
  then show ?thesis
    using decoder_inv_setup_audio_output [of k w ctx s4] device_failed(5,6) by simp
next
  case (attached ctx d s2 s4 ctx5 s5)
  have "decoder_inv k s2"
    using decoder_inv_new_audio_decoder [of k "audio_reset w s"] assms attached(2)
    by (simp add: decoder_inv_audio_reset)
  then have "decoder_inv k s4"
    by (simp add: attached(4) decoder_inv_create_audio_output decoder_inv_emit neutral_simps)
  then show ?thesis
    using decoder_inv_setup_audio_output [of k w ctx s4] attached(5,6)
    by (simp add: decoder_inv_audio_attach)
qed

lemma try_video_decoders_other_fields:
  "adec (try_video_decoders w ids s) = adec s"
  "ao (try_video_decoders w ids s) = ao s"
  "athread (try_video_decoders w ids s) = athread s"
  "vthread (try_video_decoders w ids s) = vthread s"
  "frame_rate (try_video_decoders w ids s) = frame_rate s"
  "audio_avctx (try_video_decoders w ids s) = audio_avctx s"
  "video_avctx (try_video_decoders w ids s) = video_avctx s"
  "vc_ids (try_video_decoders w ids s) = vc_ids s"
  by (induction ids arbitrary: s; simp add: Let_def emit_fields)+

lemma try_video_decoders_errors:
  "errors (trace (try_video_decoders w ids s)) = errors (trace s)"
  by (induction ids arbitrary: s) (simp_all add: Let_def emit_fields errors_def)

lemma try_video_decoders_reopen_calls:
  "reopen_calls (trace (try_video_decoders w ids s)) = reopen_calls (trace s)"
  by (induction ids arbitrary: s) (simp_all add: Let_def emit_fields reopen_calls_def)

lemma decoder_inv_audio_vdec:
  "decoder_inv AudioStream (s\<lparr>vdec := v\<rparr>) = decoder_inv AudioStream s"
  by (simp add: decoder_inv_def owned_def)

lemma try_video_decoders_audio_inv:
  "decoder_inv AudioStream (try_video_decoders w ids s) = decoder_inv AudioStream s"
proof (induction ids arbitrary: s)
  case Nil
  then show ?case by simp
next
  case (Cons vid vids)
  show ?case
    by (simp add: Let_def Cons decoder_inv_emit decoder_inv_update decoder_inv_audio_vdec
        neutral_simps)
qed

lemma try_video_decoders_live:
  assumes "at_most_one_live VideoStream L (trace s)" "live_after VideoStream L (trace s) = {}"
  shows "at_most_one_live VideoStream L (trace (try_video_decoders w ids s))
    \<and> live_after VideoStream L (trace (try_video_decoders w ids s)) =
        (case find (decoder_works w) ids of None \<Rightarrow> {}
         | Some vid \<Rightarrow> fst ` set_option (vdec (try_video_decoders w ids s)))"
  using assms
proof (induction ids arbitrary: s)
  case Nil
  then show ?case by simp
next
  case (Cons vid vids)
  consider (absent) "\<not> createVideoDecoder w vid"
    | (fails) "createVideoDecoder w vid" "\<not> decoder_works w vid"
    | (works) "createVideoDecoder w vid" "decoder_works w vid"
    by blast
  then show ?case
  proof cases
    case absent
    then have nw: "\<not> decoder_works w vid" by (simp add: decoder_works_def)
    let ?s1 = "emit [DecoderCreate vid None] s"
    have "at_most_one_live VideoStream L (trace ?s1)" "live_after VideoStream L (trace ?s1) = {}"
      using Cons.prems by (simp_all add: emit_fields history_neutral neutral_simps)
    from Cons.IH [OF this] show ?thesis using absent nw by (simp split: option.splits)
  next
    case fails
    let ?d = "next_obj s"
    let ?s1 = "(emit [DecoderCreate vid (Some ?d), SetCodecContext ?d, SetOptions ?d] s)\<lparr>next_obj := Suc ?d\<rparr>"
    let ?s2 = "if video_decoder_prepare w vid
               then emit [DecoderPrepare ?d True, DecoderOpen ?d False, DecoderDelete VideoStream ?d] ?s1
               else emit [DecoderPrepare ?d False, DecoderDelete VideoStream ?d] ?s1"
    have eq: "try_video_decoders w (vid # vids) s = try_video_decoders w vids ?s2"
      using fails by (simp add: decoder_works_def Let_def)
    have "at_most_one_live VideoStream L (trace ?s2)" "live_after VideoStream L (trace ?s2) = {}"
      using Cons.prems
      by (simp_all add: emit_fields at_most_one_live_append live_after_append live_step_def neutral_simps)
    from Cons.IH [OF this] show ?thesis
      using fails by (simp add: eq del: try_video_decoders.simps split: option.splits)
  next
    case works
    then show ?thesis
      using Cons.prems
      by (simp add: decoder_works_def Let_def emit_fields at_most_one_live_append
          live_after_append live_step_def neutral_simps)
  qed
qed

lemma decoder_inv_delete_video_decoder:
  assumes "decoder_inv k s"
  shows "decoder_inv k (delete_video_decoder s)"
proof (cases k)
  case AudioStream
  then show ?thesis
    using assms
    by (simp add: delete_video_decoder_def decoder_inv_def owned_def emit_fields
        history_neutral neutral_simps split: option.splits)
next
  case VideoStream
  then show ?thesis
    using assms
    by (simp add: delete_video_decoder_def decoder_inv_def owned_def emit_fields
        at_most_one_live_append live_after_append live_step_def neutral_simps
        split: option.splits)
qed

lemma vdec_delete_video_decoder: "vdec (delete_video_decoder s) = None"
  by (simp add: delete_video_decoder_def emit_fields split: option.splits)

lemma decoder_inv_try_video_decoders:
  assumes "decoder_inv k s" "vdec s = None"
  shows "decoder_inv k (try_video_decoders w ids s)"
proof (cases k)
  case AudioStream
  then show ?thesis using assms by (simp add: try_video_decoders_audio_inv)
next
  case VideoStream
  have "at_most_one_live VideoStream {} (trace s)" "live_after VideoStream {} (trace s) = {}"
    using assms VideoStream by (simp_all add: decoder_inv_def owned_def)
  from try_video_decoders_live [OF this, of w ids] show ?thesis
    using VideoStream assms(2)
    by (simp add: decoder_inv_def owned_def try_video_decoders_vdec split: option.splits)
qed

lemma decoder_inv_video_attach: "decoder_inv k (video_attach w d s) = decoder_inv k s"
  by (simp add: video_attach_def Let_def decoder_inv_update decoder_inv_emit neutral_simps
      split: option.splits)

text \<open>The three ways through \<open>setupVideoThread\<close>.\<close>

lemma setupVideoThread_cases [case_names absent not_found found]:
  obtains
    (absent) "video_avctx (video_reset w s) = None"
      "setupVideoThread w s = (False, video_reset w s)"
  | (not_found) ctx s2 where
      "video_avctx (video_reset w s) = Some ctx"
      "s2 = try_video_decoders w (vc_ids (video_reset w s)) (delete_video_decoder (video_reset w s))"
      "vdec s2 = None"
      "setupVideoThread w s = (False, emit [EmitError VideoCodecNotFound] s2)"
  | (found) ctx s2 d vid where
      "video_avctx (video_reset w s) = Some ctx"
      "s2 = try_video_decoders w (vc_ids (video_reset w s)) (delete_video_decoder (video_reset w s))"
      "vdec s2 = Some (d, vid)"
      "setupVideoThread w s = (True, video_attach w d s2)"
proof (cases "video_avctx (video_reset w s)")
  case None
  then show ?thesis using absent by (simp add: setupVideoThread_def Let_def)
next
  case (Some ctx)
  define s2 where "s2 = try_video_decoders w (vc_ids (video_reset w s)) (delete_video_decoder (video_reset w s))"
  show ?thesis
  proof (cases "vdec s2")
    case None
    then show ?thesis using not_found [OF Some s2_def] Some
      by (simp add: setupVideoThread_def Let_def s2_def)
  next
    case inner: (Some p)
    obtain d vid where p: "p = (d, vid)" by (cases p)
    show ?thesis using found [OF Some s2_def] Some inner p
      by (simp add: setupVideoThread_def Let_def s2_def)
  qed
qed

lemma decoder_inv_setupVideoThread:
  assumes "decoder_inv k s"
  shows "decoder_inv k (snd (setupVideoThread w s))"
proof -
  have "decoder_inv k (delete_video_decoder (video_reset w s))"
    using assms by (simp add: decoder_inv_delete_video_decoder decoder_inv_video_reset)
  then have *: "decoder_inv k (try_video_decoders w ids (delete_video_decoder (video_reset w s)))" for ids
    by (rule decoder_inv_try_video_decoders) (rule vdec_delete_video_decoder)
  show ?thesis
  proof (cases rule: setupVideoThread_cases [of w s])
    case absent
    then show ?thesis using assms by (simp add: decoder_inv_video_reset)
  next
    case (not_found ctx s2)
    then show ?thesis using * by (simp add: decoder_inv_emit neutral_simps)
  next
    case (found ctx s2 d vid)
    then show ?thesis using * by (simp add: decoder_inv_video_attach)
  qed
qed

lemma try_video_decoders_trace:
  "trace (try_video_decoders w ids s) = trace s @ selection_events w ids (next_obj s)"
  by (induction ids arbitrary: s)
     (simp_all add: Let_def emit_fields attempt_events_def decoder_works_def)

lemma video_reset_fields:
  "video_avctx (video_reset w s) = video_avctx s"
  "vc_ids (video_reset w s) = vc_ids s"
  "vdec (video_reset w s) = vdec s"
  "adec (video_reset w s) = adec s"
  "next_obj (video_reset w s) = next_obj s"
  "vthread (video_reset w s) = map_option (\<lambda>th. th\<lparr>packetQueue := [], decoder := None\<rparr>) (vthread s)"
  by (simp_all add: video_reset_def initVideoStatistics_def Let_def emit_fields split: option.splits)

lemma video_reset_trace:
  "tried_ids (trace (video_reset w s)) = tried_ids (trace s)"
  "errors (trace (video_reset w s)) = errors (trace s)"
  "created_objs k (trace (video_reset w s)) = created_objs k (trace s)"
  "deleted_objs k (trace (video_reset w s)) = deleted_objs k (trace s)"
  by (simp_all add: video_reset_def initVideoStatistics_def Let_def emit_fields tried_ids_def
      errors_def created_objs_def deleted_objs_def neutral_simps split: option.splits)

lemma delete_video_decoder_fields:
  "video_avctx (delete_video_decoder s) = video_avctx s"
  "vc_ids (delete_video_decoder s) = vc_ids s"
  "next_obj (delete_video_decoder s) = next_obj s"
  "vthread (delete_video_decoder s) = vthread s"
  by (simp_all add: delete_video_decoder_def emit_fields split: option.splits)

lemma delete_video_decoder_trace:
  "tried_ids (trace (delete_video_decoder s)) = tried_ids (trace s)"
  "errors (trace (delete_video_decoder s)) = errors (trace s)"
  "created_objs VideoStream (trace (delete_video_decoder s)) = created_objs VideoStream (trace s)"
  "deleted_objs VideoStream (trace (delete_video_decoder s)) =
     deleted_objs VideoStream (trace s) @ (case vdec s of None \<Rightarrow> [] | Some (old, v) \<Rightarrow> [old])"
  by (simp_all add: delete_video_decoder_def emit_fields tried_ids_def
      errors_def created_objs_def deleted_objs_def neutral_simps split: option.splits)

lemma video_attach_fields:
  "vdec (video_attach w d s) = vdec s"
  "vthread (video_attach w d s) =
     Some ((case vthread s of None \<Rightarrow> new_thread | Some th \<Rightarrow> th)
            \<lparr>decoder := Some d, threshold := queue_min (frame_rate s), capacity := queue_max (frame_rate s)\<rparr>)"
  "frame_rate (video_attach w d s) = frame_rate s"
  by (simp_all add: video_attach_def Let_def emit_fields split: option.splits)

lemma video_attach_trace:
  "tried_ids (trace (video_attach w d s)) = tried_ids (trace s)"
  "errors (trace (video_attach w d s)) = errors (trace s)"
  "created_objs k (trace (video_attach w d s)) = created_objs k (trace s)"
  "deleted_objs k (trace (video_attach w d s)) = deleted_objs k (trace s)"
  by (simp_all add: video_attach_def Let_def emit_fields tried_ids_def
      errors_def created_objs_def deleted_objs_def neutral_simps split: option.splits)

lemma setupVideoThread_result:
  assumes "video_avctx s = Some ctx"
  shows "fst (setupVideoThread w s) = (find (decoder_works w) (vc_ids s) \<noteq> None)"
    and "map_option snd (vdec (snd (setupVideoThread w s))) = find (decoder_works w) (vc_ids s)"
proof -
  let ?s1 = "delete_video_decoder (video_reset w s)"
  have v: "vdec (try_video_decoders w (vc_ids s) ?s1) =
      (case find (decoder_works w) (vc_ids s) of None \<Rightarrow> None
       | Some vid \<Rightarrow> Some (next_obj ?s1 + length (filter (createVideoDecoder w)
                       (takeWhile (\<lambda>v. \<not> decoder_works w v) (vc_ids s))), vid))"
    by (simp add: try_video_decoders_vdec vdec_delete_video_decoder cong: option.case_cong)
  show "fst (setupVideoThread w s) = (find (decoder_works w) (vc_ids s) \<noteq> None)"
    using assms v
    by (cases rule: setupVideoThread_cases [of w s])
       (auto simp add: video_reset_fields split: option.splits)
  show "map_option snd (vdec (snd (setupVideoThread w s))) = find (decoder_works w) (vc_ids s)"
    using assms v
    by (cases rule: setupVideoThread_cases [of w s])
       (auto simp add: video_reset_fields emit_fields video_attach_fields split: option.splits)
qed

lemma setupVideoThread_tried:
  assumes "video_avctx s = Some ctx"
  shows "tried_ids (trace (snd (setupVideoThread w s))) =
      tried_ids (trace s) @ takeWhile (\<lambda>v. \<not> decoder_works w v) (vc_ids s)
        @ (case find (decoder_works w) (vc_ids s) of None \<Rightarrow> [] | Some v \<Rightarrow> [v])"
  using assms
  by (cases rule: setupVideoThread_cases [of w s])
     (simp_all add: video_reset_fields video_reset_trace delete_video_decoder_fields
       delete_video_decoder_trace video_attach_trace try_video_decoders_tried emit_fields
       tried_ids_append, simp_all add: tried_ids_def)

lemma setupVideoThread_objs:
  assumes "video_avctx s = Some ctx"
  shows "\<exists>failed.
      created_objs VideoStream (trace (snd (setupVideoThread w s))) =
        created_objs VideoStream (trace s) @ failed
          @ (case vdec (snd (setupVideoThread w s)) of None \<Rightarrow> [] | Some (d, v) \<Rightarrow> [d])
    \<and> deleted_objs VideoStream (trace (snd (setupVideoThread w s))) =
        deleted_objs VideoStream (trace s)
          @ (case vdec s of None \<Rightarrow> [] | Some (old, v) \<Rightarrow> [old]) @ failed
    \<and> length failed =
        length (filter (createVideoDecoder w) (takeWhile (\<lambda>v. \<not> decoder_works w v) (vc_ids s)))"
proof -
  let ?s1 = "delete_video_decoder (video_reset w s)"
  let ?s2 = "try_video_decoders w (vc_ids s) ?s1"
  from try_video_decoders_objs [of w "vc_ids s" ?s1] obtain failed where
    f: "created_objs VideoStream (trace ?s2) =
          created_objs VideoStream (trace s) @ failed
            @ (case find (decoder_works w) (vc_ids s) of None \<Rightarrow> []
               | Some vid \<Rightarrow> [next_obj s + length failed])"
       "deleted_objs VideoStream (trace ?s2) =
          deleted_objs VideoStream (trace s)
            @ (case vdec s of None \<Rightarrow> [] | Some (old, v) \<Rightarrow> [old]) @ failed"
       "length failed =
          length (filter (createVideoDecoder w) (takeWhile (\<lambda>v. \<not> decoder_works w v) (vc_ids s)))"
    by (auto simp add: delete_video_decoder_trace delete_video_decoder_fields video_reset_trace
        video_reset_fields cong: option.case_cong)
  have v: "vdec ?s2 =
      (case find (decoder_works w) (vc_ids s) of None \<Rightarrow> None
       | Some vid \<Rightarrow> Some (next_obj s + length failed, vid))"
    by (simp add: try_video_decoders_vdec vdec_delete_video_decoder f(3)
        delete_video_decoder_fields video_reset_fields cong: option.case_cong)
  show ?thesis
  proof (cases rule: setupVideoThread_cases [of w s])
    case absent
    then show ?thesis using assms by (simp add: video_reset_fields)
  next
    case (not_found c s2)
    then have s2: "s2 = ?s2" by (simp add: video_reset_fields)
    show ?thesis
      by (rule exI [of _ failed])
         (use not_found(3,4) v f in \<open>simp add: s2 [symmetric] emit_fields created_objs_append
            deleted_objs_append created_objs_simps deleted_objs_simps neutral_simps
            split: option.splits\<close>)
  next
    case (found c s2 d vid)
    then have s2: "s2 = ?s2" by (simp add: video_reset_fields)
    show ?thesis
      by (rule exI [of _ failed])
         (use found(3,4) v f in \<open>simp add: s2 [symmetric] video_attach_trace video_attach_fields
            split: option.splits\<close>)
  qed
qed

lemma setupVideoThread_errors:
  "errors (trace (snd (setupVideoThread w s))) =
     errors (trace s)
       @ (if video_avctx s \<noteq> None \<and> find (decoder_works w) (vc_ids s) = None
          then [VideoCodecNotFound] else [])"
proof -
  let ?s1 = "delete_video_decoder (video_reset w s)"
  have v: "vdec (try_video_decoders w (vc_ids s) ?s1) =
      (case find (decoder_works w) (vc_ids s) of None \<Rightarrow> None
       | Some vid \<Rightarrow> Some (next_obj ?s1 + length (filter (createVideoDecoder w)
                       (takeWhile (\<lambda>v. \<not> decoder_works w v) (vc_ids s))), vid))"
    by (simp add: try_video_decoders_vdec vdec_delete_video_decoder cong: option.case_cong)
  show ?thesis
    using v
    by (cases rule: setupVideoThread_cases [of w s])
       (auto simp add: video_reset_fields video_reset_trace delete_video_decoder_trace
         try_video_decoders_errors video_attach_trace emit_fields errors_append
         split: option.splits, simp_all add: errors_def)
qed

lemma setupVideoThread_disabled:
  "\<not> fst (setupVideoThread w s) \<Longrightarrow> disabled VideoStream (snd (setupVideoThread w s))"
  by (cases rule: setupVideoThread_cases [of w s])
     (simp_all add: disabled_def thread_of_def video_reset_fields emit_fields
       try_video_decoders_other_fields delete_video_decoder_fields split: option.splits)

text \<open>
  Claim C2. When the video stream is present, \<open>setupVideoThread\<close> hands the configured
  candidates to the factory in order, up to and including the first one that works
  (that the factory constructs and whose \<^verbatim>\<open>prepare()\<close> and \<^verbatim>\<open>open()\<close> both succeed); that
  candidate becomes \<^verbatim>\<open>vdec\<close> and the setup succeeds exactly when there is one. The
  decoders constructed are the failed ones followed by the selected one, and the
  decoders deleted are the previous decoder followed by exactly the failed ones. The
  calls of the loop are, candidate by candidate, those of \<open>selection_events\<close>:
  construction, codec context, options, \<^verbatim>\<open>prepare()\<close>, then \<^verbatim>\<open>open()\<close> when \<^verbatim>\<open>prepare()\<close>
  returned true, then the deletion of a candidate that failed.
\<close>

theorem video_decoder_selection:
  assumes "video_avctx s = Some ctx"
  shows "fst (setupVideoThread w s) = (find (decoder_works w) (vc_ids s) \<noteq> None)
    \<and> map_option snd (vdec (snd (setupVideoThread w s))) = find (decoder_works w) (vc_ids s)
    \<and> tried_ids (trace (snd (setupVideoThread w s))) =
        tried_ids (trace s) @ takeWhile (\<lambda>v. \<not> decoder_works w v) (vc_ids s)
          @ (case find (decoder_works w) (vc_ids s) of None \<Rightarrow> [] | Some v \<Rightarrow> [v])
    \<and> (\<exists>failed.
          created_objs VideoStream (trace (snd (setupVideoThread w s))) =
            created_objs VideoStream (trace s) @ failed
              @ (case vdec (snd (setupVideoThread w s)) of None \<Rightarrow> [] | Some (d, v) \<Rightarrow> [d])
        \<and> deleted_objs VideoStream (trace (snd (setupVideoThread w s))) =
            deleted_objs VideoStream (trace s)
              @ (case vdec s of None \<Rightarrow> [] | Some (old, v) \<Rightarrow> [old]) @ failed
        \<and> length failed =
            length (filter (createVideoDecoder w) (takeWhile (\<lambda>v. \<not> decoder_works w v) (vc_ids s))))
    \<and> (\<forall>ids s0. trace (try_video_decoders w ids s0) = trace s0 @ selection_events w ids (next_obj s0))"
  using setupVideoThread_result [OF assms, of w] setupVideoThread_tried [OF assms, of w]
    setupVideoThread_objs [OF assms, of w] try_video_decoders_trace [of w]
  by simp

text \<open>The setup of the video thread when decoder 0 fails to open and decoder 1 works.\<close>

lemma abc_setup:
  "setupVideoThread abc_world (player [0, 1, 2]) =
    (True, (player [0, 1, 2])\<lparr>vdec := Some (1, 1),
       vthread := Some \<lparr>decoder = Some 1, packetQueue = [], threshold = 14, capacity = 22\<rparr>,
       next_obj := 2,
       trace := [SetStreamIndex VideoStream 0,
        DecoderCreate 0 (Some 0), SetCodecContext 0, SetOptions 0,
        DecoderPrepare 0 True, DecoderOpen 0 False, DecoderDelete VideoStream 0,
        DecoderCreate 1 (Some 1), SetCodecContext 1, SetOptions 1,
        DecoderPrepare 1 True, DecoderOpen 1 True,
        ConnectError 1, ThreadNew VideoStream, ThreadSetDecoder VideoStream (Some 1),
        ThreadSetPicture, SetThreshold VideoStream 14, SetCapacity VideoStream 22]\<rparr>)"
proof -
  have q: "queue_min (Finite 0) = 14 \<and> queue_max (Finite 0) = 22" by (rule queue_sizes_low_rate) simp
  show ?thesis
    by (simp add: setupVideoThread_def video_reset_def delete_video_decoder_def video_attach_def
        Let_def emit_def player_def constructed_def world_def abc_world_def new_thread_def q)
qed

text \<open>
  The example of claim C2: of the candidates A = 0, B = 1, C = 2 the first fails to
  open and the others work. B is selected, the instance of A (object 0) is deleted, and
  C is never handed to the factory.
\<close>

theorem video_decoder_selection_witness:
  "video_avctx (player [0, 1, 2]) = Some stereo_ctx
   \<and> find (decoder_works abc_world) [0, 1, 2] = Some 1
   \<and> fst (setupVideoThread abc_world (player [0, 1, 2]))
   \<and> vdec (snd (setupVideoThread abc_world (player [0, 1, 2]))) = Some (1, 1)
   \<and> tried_ids (trace (snd (setupVideoThread abc_world (player [0, 1, 2])))) = [0, 1]
   \<and> trace (snd (setupVideoThread abc_world (player [0, 1, 2]))) =
       [SetStreamIndex VideoStream 0,
        DecoderCreate 0 (Some 0), SetCodecContext 0, SetOptions 0,
        DecoderPrepare 0 True, DecoderOpen 0 False, DecoderDelete VideoStream 0,
        DecoderCreate 1 (Some 1), SetCodecContext 1, SetOptions 1,
        DecoderPrepare 1 True, DecoderOpen 1 True,
        ConnectError 1, ThreadNew VideoStream, ThreadSetDecoder VideoStream (Some 1),
        ThreadSetPicture, SetThreshold VideoStream 14, SetCapacity VideoStream 22]"
proof -
  let ?P = "player [0, 1, 2]"
  have h: "video_avctx ?P = Some stereo_ctx"
    by (simp add: player_def constructed_def)
  have f: "find (decoder_works abc_world) [0, 1, 2] = Some 1"
    by (simp add: decoder_works_def world_def abc_world_def)
  have t: "takeWhile (\<lambda>v. \<not> decoder_works abc_world v) [0, 1, 2] = [0]"
    by (simp add: decoder_works_def world_def abc_world_def)
  have v: "vc_ids ?P = [0, 1, 2]" "trace ?P = []"
    by (simp_all add: player_def constructed_def)
  note r = abc_setup
  have e: "tried_ids (trace (snd (setupVideoThread abc_world ?P))) =
      tried_ids (trace ?P) @ takeWhile (\<lambda>v. \<not> decoder_works abc_world v) (vc_ids ?P)
        @ (case find (decoder_works abc_world) (vc_ids ?P) of None \<Rightarrow> [] | Some v \<Rightarrow> [v])"
    using video_decoder_selection [OF h, of abc_world] by blast
  have "tried_ids (trace (snd (setupVideoThread abc_world ?P))) = [0, 1]"
    unfolding e v f t by (simp add: tried_ids_def)
  then show ?thesis using h f r by simp
qed

text \<open>
  Claim C7. When the video stream is present and no configured candidate works (the
  factory does not construct it, or its \<^verbatim>\<open>prepare()\<close> or \<^verbatim>\<open>open()\<close> fails), which includes
  the empty candidate list, \<open>setupVideoThread\<close> fails, leaves no video decoder and
  emits the error \<open>VideoCodecNotFound\<close> exactly once, whatever the number of
  candidates. In every setup the error is emitted at most once, and only in this case.
\<close>

theorem video_decoder_not_found:
  assumes "video_avctx s = Some ctx" "\<forall>vid\<in>set (vc_ids s). \<not> decoder_works w vid"
  shows "\<not> fst (setupVideoThread w s)
    \<and> vdec (snd (setupVideoThread w s)) = None
    \<and> errors (trace (snd (setupVideoThread w s))) = errors (trace s) @ [VideoCodecNotFound]
    \<and> (\<forall>w' s'. errors (trace (snd (setupVideoThread w' s'))) =
          errors (trace s')
            @ (if video_avctx s' \<noteq> None \<and> find (decoder_works w') (vc_ids s') = None
               then [VideoCodecNotFound] else []))"
proof -
  have n: "find (decoder_works w) (vc_ids s) = None"
    using assms(2) by (simp add: find_None_iff)
  have "vdec (snd (setupVideoThread w s)) = None"
    using setupVideoThread_result(2) [OF assms(1), of w] n by simp
  then show ?thesis
    using setupVideoThread_result(1) [OF assms(1), of w] n assms(1)
    by (simp add: setupVideoThread_errors)
qed

text \<open>Three candidates none of which opens, and no candidate at all.\<close>

theorem video_decoder_not_found_witness:
  "setupVideoThread closed_world (player [0, 1, 2]) =
     (False, (player [0, 1, 2])\<lparr>next_obj := 3, trace :=
        [SetStreamIndex VideoStream 0,
         DecoderCreate 0 (Some 0), SetCodecContext 0, SetOptions 0,
         DecoderPrepare 0 True, DecoderOpen 0 False, DecoderDelete VideoStream 0,
         DecoderCreate 1 (Some 1), SetCodecContext 1, SetOptions 1,
         DecoderPrepare 1 True, DecoderOpen 1 False, DecoderDelete VideoStream 1,
         DecoderCreate 2 (Some 2), SetCodecContext 2, SetOptions 2,
         DecoderPrepare 2 True, DecoderOpen 2 False, DecoderDelete VideoStream 2,
         EmitError VideoCodecNotFound]\<rparr>)
   \<and> errors (trace (snd (setupVideoThread closed_world (player [0, 1, 2])))) = [VideoCodecNotFound]
   \<and> \<not> fst (setupVideoThread closed_world (player []))
   \<and> errors (trace (snd (setupVideoThread closed_world (player [])))) = [VideoCodecNotFound]"
proof -
  have h: "video_avctx (player vcs) = Some stereo_ctx" "vc_ids (player vcs) = vcs"
    "errors (trace (player vcs)) = []" for vcs
    by (simp_all add: player_def constructed_def errors_def)
  have a: "\<forall>vid\<in>set (vc_ids (player vcs)). \<not> decoder_works closed_world vid" for vcs
    by (simp add: decoder_works_def closed_world_def world_def)
  have r: "setupVideoThread closed_world (player [0, 1, 2]) =
     (False, (player [0, 1, 2])\<lparr>next_obj := 3, trace :=
        [SetStreamIndex VideoStream 0,
         DecoderCreate 0 (Some 0), SetCodecContext 0, SetOptions 0,
         DecoderPrepare 0 True, DecoderOpen 0 False, DecoderDelete VideoStream 0,
         DecoderCreate 1 (Some 1), SetCodecContext 1, SetOptions 1,
         DecoderPrepare 1 True, DecoderOpen 1 False, DecoderDelete VideoStream 1,
         DecoderCreate 2 (Some 2), SetCodecContext 2, SetOptions 2,
         DecoderPrepare 2 True, DecoderOpen 2 False, DecoderDelete VideoStream 2,
         EmitError VideoCodecNotFound]\<rparr>)"
    by (simp add: setupVideoThread_def video_reset_def delete_video_decoder_def
        Let_def emit_def player_def constructed_def world_def closed_world_def)
  have e: "\<not> fst (setupVideoThread closed_world (player vcs))
    \<and> errors (trace (snd (setupVideoThread closed_world (player vcs)))) = [VideoCodecNotFound]" for vcs
  proof -
    have "\<not> fst (setupVideoThread closed_world (player vcs))
      \<and> errors (trace (snd (setupVideoThread closed_world (player vcs)))) =
          errors (trace (player vcs)) @ [VideoCodecNotFound]"
      using video_decoder_not_found [OF h(1) a, of vcs] by (elim conjE) (intro conjI)
    then show ?thesis by (simp only: h append_Nil simp_thms)
  qed
  note e1 = e [of "[0, 1, 2]", THEN conjunct2]
  note e2 = e [of "[]"]
  from r e1 e2 show ?thesis by blast
qed

lemma correct_audio_channels_idem:
  "snd (correct_audio_channels l (snd (correct_audio_channels l ctx))) = snd (correct_audio_channels l ctx)"
  by (simp add: correct_audio_channels_def Let_def)

lemma negotiate_format_audioFormat:
  "negotiate_format l (dev\<lparr>audioFormat := af\<rparr>) ctx = negotiate_format l dev ctx"
  by (simp add: negotiate_format_def derived_format_def Let_def)

lemma initAudioStatistics_fields:
  "audio_avctx (initAudioStatistics w s) =
     map_option (\<lambda>c. snd (correct_audio_channels (lib w) c)) (audio_avctx s)"
  "adec (initAudioStatistics w s) = adec s"
  "ao (initAudioStatistics w s) = ao s"
  "ao_enabled (initAudioStatistics w s) = ao_enabled s"
  "ao_ids (initAudioStatistics w s) = ao_ids s"
  "athread (initAudioStatistics w s) = athread s"
  "next_obj (initAudioStatistics w s) = next_obj s"
  "frame_rate (initAudioStatistics w s) = frame_rate s"
  "trace (initAudioStatistics w s) = trace s @ [InitStatistics AudioStream]"
  by (simp_all add: initAudioStatistics_def emit_fields split: option.splits)

lemma audio_reset_fields:
  "audio_avctx (audio_reset w s) =
     (if athread s = None then audio_avctx s
      else map_option (\<lambda>c. snd (correct_audio_channels (lib w) c)) (audio_avctx s))"
  "adec (audio_reset w s) = adec s"
  "ao (audio_reset w s) = ao s"
  "ao_enabled (audio_reset w s) = ao_enabled s"
  "ao_ids (audio_reset w s) = ao_ids s"
  "athread (audio_reset w s) = map_option (\<lambda>th. th\<lparr>packetQueue := [], decoder := None\<rparr>) (athread s)"
  "next_obj (audio_reset w s) = next_obj s"
  "frame_rate (audio_reset w s) = frame_rate s"
  by (simp_all add: audio_reset_def Let_def initAudioStatistics_fields emit_fields
      split: option.splits)

lemma audio_reset_trace:
  "\<exists>es. trace (audio_reset w s) = trace s @ es \<and> errors es = [] \<and> reopen_calls es = []
     \<and> created_objs k es = [] \<and> deleted_objs k es = []"
  by (simp add: audio_reset_def Let_def initAudioStatistics_fields emit_fields errors_def
      reopen_calls_def created_objs_def deleted_objs_def neutral_simps split: option.splits)

lemma new_audio_decoder_fields:
  "fst (new_audio_decoder s) = next_obj s"
  "adec (snd (new_audio_decoder s)) = Some (next_obj s)"
  "audio_avctx (snd (new_audio_decoder s)) = audio_avctx s"
  "ao (snd (new_audio_decoder s)) = ao s"
  "ao_enabled (snd (new_audio_decoder s)) = ao_enabled s"
  "ao_ids (snd (new_audio_decoder s)) = ao_ids s"
  "athread (snd (new_audio_decoder s)) = athread s"
  "frame_rate (snd (new_audio_decoder s)) = frame_rate s"
  by (simp_all add: new_audio_decoder_def Let_def emit_fields split: option.splits)

lemma new_audio_decoder_trace:
  "\<exists>es. trace (snd (new_audio_decoder s)) = trace s @ es \<and> errors es = [] \<and> reopen_calls es = []
     \<and> deleted_objs AudioStream es = (case adec s of None \<Rightarrow> [] | Some old \<Rightarrow> [old])
     \<and> created_objs AudioStream es = [next_obj s]"
  by (simp add: new_audio_decoder_def Let_def emit_fields errors_def
      reopen_calls_def created_objs_def deleted_objs_def neutral_simps split: option.splits)

lemma create_audio_output_fields:
  "ao (create_audio_output w ids s) = (if ids = [] then ao s else first_audio_output w ids)"
  "adec (create_audio_output w ids s) = adec s"
  "audio_avctx (create_audio_output w ids s) = audio_avctx s"
  "ao_enabled (create_audio_output w ids s) = ao_enabled s"
  "ao_ids (create_audio_output w ids s) = ao_ids s"
  "athread (create_audio_output w ids s) = athread s"
  "frame_rate (create_audio_output w ids s) = frame_rate s"
  by (induction ids arbitrary: s; simp add: emit_fields split: option.splits)+

lemma create_audio_output_trace:
  "\<exists>es. trace (create_audio_output w ids s) = trace s @ es \<and> errors es = [] \<and> reopen_calls es = []
     \<and> created_objs k es = [] \<and> deleted_objs k es = []"
proof (induction ids arbitrary: s)
  case Nil
  then show ?case by (simp add: errors_def reopen_calls_def created_objs_def deleted_objs_def)
next
  case (Cons aoid ids)
  show ?case
  proof (cases "createAudioOutput w aoid")
    case None
    let ?s1 = "(emit [AudioOutputCreate aoid False] s)\<lparr>ao := None\<rparr>"
    from Cons [of ?s1] obtain es where
      "trace (create_audio_output w ids ?s1) = trace ?s1 @ es" "errors es = []"
      "reopen_calls es = []" "created_objs k es = []" "deleted_objs k es = []"
      by blast
    then show ?thesis
      using None
      by (intro exI [of _ "AudioOutputCreate aoid False # es"])
         (simp add: emit_fields errors_def reopen_calls_def created_objs_def deleted_objs_def
           neutral_simps)
  next
    case (Some dev)
    then show ?thesis
      by (simp add: emit_fields errors_def reopen_calls_def created_objs_def deleted_objs_def
          neutral_simps)
  qed
qed

lemma audio_attach_fields:
  "adec (audio_attach w d ctx s) = adec s"
  "audio_avctx (audio_attach w d ctx s) = audio_avctx s"
  "ao (audio_attach w d ctx s) = ao s"
  "ao_enabled (audio_attach w d ctx s) = ao_enabled s"
  "ao_ids (audio_attach w d ctx s) = ao_ids s"
  "athread (audio_attach w d ctx s) =
     Some ((case athread s of None \<Rightarrow> new_thread | Some th \<Rightarrow> th)
            \<lparr>decoder := Some d, threshold := queue_min (frame_rate s), capacity := queue_max (frame_rate s)\<rparr>)"
  "frame_rate (audio_attach w d ctx s) = frame_rate s"
  by (simp_all add: audio_attach_def Let_def emit_fields split: option.splits)

lemma audio_attach_trace:
  "\<exists>es. trace (audio_attach w d ctx s) = trace s @ es \<and> errors es = [] \<and> reopen_calls es = []
     \<and> created_objs k es = [] \<and> deleted_objs k es = []"
  by (simp add: audio_attach_def Let_def emit_fields errors_def
      reopen_calls_def created_objs_def deleted_objs_def neutral_simps split: option.splits)

lemma first_audio_output_Nil: "ids = [] \<Longrightarrow> first_audio_output w ids = None"
  by simp

lemma audio_before_negotiation:
  assumes c: "audio_avctx s = Some c"
    and n: "new_audio_decoder (audio_reset w s) = (d, s2)"
    and s4: "s4 = (if ao s2 = None \<and> ao_enabled s2
             then create_audio_output w (ao_ids s2) (emit [DecoderOpen d True] s2)
             else emit [DecoderOpen d True] s2)"
  shows "ao s4 = audio_device w s"
    and "audio_avctx s4 = audio_avctx (audio_reset w s)"
    and "adec s4 = Some (next_obj s)"
    and "d = next_obj s"
    and "athread s4 = map_option (\<lambda>th. th\<lparr>packetQueue := [], decoder := None\<rparr>) (athread s)"
    and "ao_enabled s4 = ao_enabled s" and "ao_ids s4 = ao_ids s"
    and "frame_rate s4 = frame_rate s"
    and "\<exists>es. trace s4 = trace s @ es \<and> errors es = [] \<and> reopen_calls es = []
           \<and> deleted_objs AudioStream es = (case adec s of None \<Rightarrow> [] | Some old \<Rightarrow> [old])
           \<and> created_objs AudioStream es = [next_obj s]"
proof -
  have s2: "s2 = snd (new_audio_decoder (audio_reset w s))" and d: "d = next_obj s"
    using n new_audio_decoder_fields(1) [of "audio_reset w s"] by (simp_all add: audio_reset_fields)
  show "d = next_obj s" by (rule d)
  show "ao s4 = audio_device w s"
    by (simp add: s4 s2 audio_device_def create_audio_output_fields emit_fields
        new_audio_decoder_fields audio_reset_fields)
  show "audio_avctx s4 = audio_avctx (audio_reset w s)"
    by (simp add: s4 s2 create_audio_output_fields emit_fields new_audio_decoder_fields)
  show "adec s4 = Some (next_obj s)"
    by (simp add: s4 s2 create_audio_output_fields emit_fields new_audio_decoder_fields
        audio_reset_fields)
  show "athread s4 = map_option (\<lambda>th. th\<lparr>packetQueue := [], decoder := None\<rparr>) (athread s)"
    by (simp add: s4 s2 create_audio_output_fields emit_fields new_audio_decoder_fields
        audio_reset_fields)
  show "ao_enabled s4 = ao_enabled s" "ao_ids s4 = ao_ids s" "frame_rate s4 = frame_rate s"
    by (simp_all add: s4 s2 create_audio_output_fields emit_fields new_audio_decoder_fields
        audio_reset_fields)
  obtain e1 where e1: "trace (audio_reset w s) = trace s @ e1" "errors e1 = []"
    "reopen_calls e1 = []" "created_objs AudioStream e1 = []" "deleted_objs AudioStream e1 = []"
    using audio_reset_trace [of w s AudioStream] by blast
  obtain e2 where e2: "trace s2 = trace (audio_reset w s) @ e2" "errors e2 = []"
    "reopen_calls e2 = []"
    "deleted_objs AudioStream e2 = (case adec s of None \<Rightarrow> [] | Some old \<Rightarrow> [old])"
    "created_objs AudioStream e2 = [next_obj s]"
    using new_audio_decoder_trace [of "audio_reset w s"] s2 by (auto simp add: audio_reset_fields)
  let ?s3 = "emit [DecoderOpen d True] s2"
  obtain e3 where e3: "trace s4 = trace ?s3 @ e3" "errors e3 = []"
    "reopen_calls e3 = []" "created_objs AudioStream e3 = []" "deleted_objs AudioStream e3 = []"
  proof (cases "ao s2 = None \<and> ao_enabled s2")
    case True
    then show ?thesis using create_audio_output_trace [of w "ao_ids s2" ?s3 AudioStream] that s4
      by auto
  next
    case False
    then show ?thesis using that [of "[]"] s4
      by (auto simp add: errors_def reopen_calls_def created_objs_def deleted_objs_def)
  qed
  show "\<exists>es. trace s4 = trace s @ es \<and> errors es = [] \<and> reopen_calls es = []
           \<and> deleted_objs AudioStream es = (case adec s of None \<Rightarrow> [] | Some old \<Rightarrow> [old])
           \<and> created_objs AudioStream es = [next_obj s]"
    by (rule exI [of _ "e1 @ e2 @ DecoderOpen d True # e3"])
       (simp add: e1 e2 e3 emit_fields errors_append reopen_calls_append created_objs_append
         deleted_objs_append, simp add: errors_def reopen_calls_def created_objs_def
         deleted_objs_def neutral_simps e1 e2 e3 [unfolded errors_def reopen_calls_def created_objs_def
         deleted_objs_def])
qed

text \<open>The four ways through the negotiation of lines 321--359.\<close>

lemma setup_audio_output_cases [case_names none same reopened failed]:
  obtains
    (none) "ao s = None" "setup_audio_output w ctx s = (True, ctx, s)"
  | (same) dev where "ao s = Some dev"
      "audioFormat dev = negotiate_format (lib w) dev (snd (correct_audio_channels (lib w) ctx))"
      "setup_audio_output w ctx s =
         (True, snd (correct_audio_channels (lib w) ctx),
          s\<lparr>audio_avctx := Some (snd (correct_audio_channels (lib w) ctx))\<rparr>)"
  | (reopened) dev af where "ao s = Some dev"
      "af = negotiate_format (lib w) dev (snd (correct_audio_channels (lib w) ctx))"
      "audioFormat dev \<noteq> af" "open_result dev af"
      "setup_audio_output w ctx s =
         (True, snd (correct_audio_channels (lib w) ctx),
          emit [AoClose, AoSetAudioFormat af, AoOpen True]
            (s\<lparr>audio_avctx := Some (snd (correct_audio_channels (lib w) ctx)),
               ao := Some (dev\<lparr>audioFormat := af\<rparr>)\<rparr>))"
  | (failed) dev af where "ao s = Some dev"
      "af = negotiate_format (lib w) dev (snd (correct_audio_channels (lib w) ctx))"
      "audioFormat dev \<noteq> af" "\<not> open_result dev af"
      "setup_audio_output w ctx s =
         (False, snd (correct_audio_channels (lib w) ctx),
          (emit [AoDelete]
            (emit [AoClose, AoSetAudioFormat af, AoOpen False]
              (s\<lparr>audio_avctx := Some (snd (correct_audio_channels (lib w) ctx)),
                 ao := Some (dev\<lparr>audioFormat := af\<rparr>)\<rparr>)))\<lparr>ao := None\<rparr>)"
proof (cases "ao s")
  case None
  then show ?thesis using none by (simp add: setup_audio_output_def)
next
  case (Some dev)
  let ?af = "negotiate_format (lib w) dev (snd (correct_audio_channels (lib w) ctx))"
  show ?thesis
  proof (cases "audioFormat dev = ?af")
    case True
    then show ?thesis using same [OF Some] Some by (simp add: setup_audio_output_def Let_def)
  next
    case False
    show ?thesis
    proof (cases "open_result dev ?af")
      case True
      then show ?thesis using reopened [OF Some refl False] Some False
        by (simp add: setup_audio_output_def Let_def)
    next
      case nope: False
      then show ?thesis using failed [OF Some refl False] Some False
        by (simp add: setup_audio_output_def Let_def)
    qed
  qed
qed

lemma audio_reset_ctx:
  assumes "audio_avctx s = Some c" "audio_avctx (audio_reset w s) = Some ctx"
  shows "snd (correct_audio_channels (lib w) ctx) = snd (correct_audio_channels (lib w) c)"
  using assms by (auto simp add: audio_reset_fields correct_audio_channels_idem split: if_splits)

lemma audio_reset_absent:
  "(audio_avctx (audio_reset w s) = None) = (audio_avctx s = None)"
  by (simp add: audio_reset_fields)

lemma setupAudioThread_absent:
  assumes "audio_avctx s = None"
  shows "setupAudioThread w s = (False, audio_reset w s)"
proof -
  have "audio_avctx (audio_reset w s) = None" using assms by (simp add: audio_reset_absent)
  then show ?thesis by (simp add: setupAudioThread_def Let_def)
qed

lemma setupAudioThread_open_failed:
  assumes "audio_avctx s = Some c" "\<not> audio_decoder_open w"
  shows "setupAudioThread w s =
    (False, emit [DecoderOpen (next_obj s) False, EmitError AudioCodecNotFound]
              (snd (new_audio_decoder (audio_reset w s))))"
proof (cases rule: setupAudioThread_cases [of w s])
  case (open_failed ctx d s2)
  then show ?thesis
    using new_audio_decoder_fields(1) [of "audio_reset w s"] by (simp add: audio_reset_fields)
qed (use assms in \<open>simp_all add: audio_reset_absent\<close>)

text \<open>With the stream present and the decoder open, the setup reaches the negotiation
  in a state \<open>s4\<close> and ends as the negotiation decides.\<close>

lemma setupAudioThread_negotiation:
  assumes c: "audio_avctx s = Some c" and o: "audio_decoder_open w"
  obtains s4 ctx where
    "ao s4 = audio_device w s"
    "adec s4 = Some (next_obj s)"
    "athread s4 = map_option (\<lambda>th. th\<lparr>packetQueue := [], decoder := None\<rparr>) (athread s)"
    "ao_enabled s4 = ao_enabled s" "ao_ids s4 = ao_ids s" "frame_rate s4 = frame_rate s"
    "audio_avctx s4 = Some ctx"
    "snd (correct_audio_channels (lib w) ctx) = snd (correct_audio_channels (lib w) c)"
    "athread s = None \<Longrightarrow> ctx = c"
    "\<exists>es. trace s4 = trace s @ es \<and> errors es = [] \<and> reopen_calls es = []
       \<and> deleted_objs AudioStream es = (case adec s of None \<Rightarrow> [] | Some old \<Rightarrow> [old])
       \<and> created_objs AudioStream es = [next_obj s]"
    "setupAudioThread w s =
       (case setup_audio_output w ctx s4 of
          (ok, ctx5, s5) \<Rightarrow> if ok then (True, audio_attach w (next_obj s) ctx5 s5) else (False, s5))"
proof (cases rule: setupAudioThread_cases [of w s])
  case absent
  then show ?thesis using c by (simp add: audio_reset_absent)
next
  case (open_failed ctx d s2)
  then show ?thesis using o by simp
next
  case (device_failed ctx d s2 s4 ctx5 s5)
  note b = audio_before_negotiation [OF c device_failed(2,4)]
  have "athread s = None \<Longrightarrow> ctx = c"
    using c device_failed(1) by (simp add: audio_reset_fields)
  then show ?thesis
    using that [of s4 ctx] b device_failed audio_reset_ctx [OF c device_failed(1)] by simp
next
  case (attached ctx d s2 s4 ctx5 s5)
  note b = audio_before_negotiation [OF c attached(2,4)]
  have "athread s = None \<Longrightarrow> ctx = c"
    using c attached(1) by (simp add: audio_reset_fields)
  then show ?thesis
    using that [of s4 ctx] b attached audio_reset_ctx [OF c attached(1)] by simp
qed

lemma reopening_alt:
  assumes "audio_avctx s = Some c" "audio_decoder_open w"
  shows "reopening w s =
    (case audio_device w s of None \<Rightarrow> None
     | Some dev \<Rightarrow>
         if audioFormat dev \<noteq> negotiate_format (lib w) dev (snd (correct_audio_channels (lib w) c))
         then Some (dev, negotiate_format (lib w) dev (snd (correct_audio_channels (lib w) c)))
         else None)"
  using assms by (simp add: reopening_def Let_def split: option.splits)

lemma setupAudioThread_reopening:
  "fst (setupAudioThread w s) =
     (audio_avctx s \<noteq> None \<and> audio_decoder_open w
      \<and> (case reopening w s of None \<Rightarrow> True | Some (dev, af) \<Rightarrow> open_result dev af))"
  "reopen_calls (trace (snd (setupAudioThread w s))) =
     reopen_calls (trace s)
       @ (case reopening w s of None \<Rightarrow> [] | Some (dev, af) \<Rightarrow> [AoClose, AoOpen (open_result dev af)])"
proof -
  have "fst (setupAudioThread w s) =
     (audio_avctx s \<noteq> None \<and> audio_decoder_open w
      \<and> (case reopening w s of None \<Rightarrow> True | Some (dev, af) \<Rightarrow> open_result dev af))
    \<and> reopen_calls (trace (snd (setupAudioThread w s))) =
     reopen_calls (trace s)
       @ (case reopening w s of None \<Rightarrow> [] | Some (dev, af) \<Rightarrow> [AoClose, AoOpen (open_result dev af)])"
  proof (cases "audio_avctx s")
    case None
    obtain es where "trace (audio_reset w s) = trace s @ es" "reopen_calls es = []"
      using audio_reset_trace [of w s AudioStream] by blast
    then show ?thesis
      using None by (simp add: setupAudioThread_absent reopening_def reopen_calls_append)
  next
    case (Some c)
    show ?thesis
    proof (cases "audio_decoder_open w")
      case False
      obtain e1 where e1: "trace (audio_reset w s) = trace s @ e1" "reopen_calls e1 = []"
        using audio_reset_trace [of w s AudioStream] by blast
      obtain e2 where e2: "trace (snd (new_audio_decoder (audio_reset w s))) = trace (audio_reset w s) @ e2"
        "reopen_calls e2 = []"
        using new_audio_decoder_trace [of "audio_reset w s"] by blast
      show ?thesis
        using Some False e1 e2
        by (simp add: setupAudioThread_open_failed reopening_def emit_fields reopen_calls_append,
            simp add: reopen_calls_def)
    next
      case True
      from Some True obtain s4 ctx where
        s4: "ao s4 = audio_device w s"
          "snd (correct_audio_channels (lib w) ctx) = snd (correct_audio_channels (lib w) c)"
          "\<exists>es. trace s4 = trace s @ es \<and> errors es = [] \<and> reopen_calls es = []
             \<and> deleted_objs AudioStream es = (case adec s of None \<Rightarrow> [] | Some old \<Rightarrow> [old])
             \<and> created_objs AudioStream es = [next_obj s]"
          "setupAudioThread w s =
             (case setup_audio_output w ctx s4 of
                (ok, ctx5, s5) \<Rightarrow> if ok then (True, audio_attach w (next_obj s) ctx5 s5) else (False, s5))"
        by (rule setupAudioThread_negotiation) blast
      from s4(3) obtain es where es: "trace s4 = trace s @ es" "reopen_calls es = []" by blast
      have att: "reopen_calls (trace (audio_attach w d c' x)) = reopen_calls (trace x)" for d c' x
        using audio_attach_trace [of w d c' x AudioStream] by (auto simp add: reopen_calls_append)
      show ?thesis
      proof (cases rule: setup_audio_output_cases [of s4 w ctx])
        case none
        then show ?thesis
          using Some True s4 es by (simp add: reopening_alt att reopen_calls_append)
      next
        case (same dev)
        then show ?thesis
          using Some True s4 es by (simp add: reopening_alt att reopen_calls_append)
      next
        case (reopened dev af)
        then show ?thesis
          using Some True s4 es
          by (simp add: reopening_alt att reopen_calls_append emit_fields, simp add: reopen_calls_def)
      next
        case (failed dev af)
        then show ?thesis
          using Some True s4 es
          by (simp add: reopening_alt att reopen_calls_append emit_fields, simp add: reopen_calls_def)
      qed
    qed
  qed
  then show "fst (setupAudioThread w s) =
     (audio_avctx s \<noteq> None \<and> audio_decoder_open w
      \<and> (case reopening w s of None \<Rightarrow> True | Some (dev, af) \<Rightarrow> open_result dev af))"
    and "reopen_calls (trace (snd (setupAudioThread w s))) =
     reopen_calls (trace s)
       @ (case reopening w s of None \<Rightarrow> [] | Some (dev, af) \<Rightarrow> [AoClose, AoOpen (open_result dev af)])"
    by simp_all
qed

lemma audio_device_None:
  assumes "audio_device w s = None" "ao s1 = None" "ao_enabled s1 = ao_enabled s" "ao_ids s1 = ao_ids s"
  shows "audio_device w s1 = None"
  using assms by (auto simp add: audio_device_def split: if_splits)

lemma setupAudioThread_after_success:
  assumes "setupAudioThread w s = (True, s1)"
  shows "audio_decoder_open w" and "reopening w s1 = None" and "audio_avctx s1 \<noteq> None"
proof -
  have f: "fst (setupAudioThread w s)" using assms by simp
  then show o: "audio_decoder_open w" by (simp add: setupAudioThread_reopening)
  from f obtain c where c: "audio_avctx s = Some c" by (auto simp add: setupAudioThread_reopening)
  from c o obtain s4 ctx where
    s4: "ao s4 = audio_device w s"
      "ao_enabled s4 = ao_enabled s" "ao_ids s4 = ao_ids s"
      "audio_avctx s4 = Some ctx"
      "setupAudioThread w s =
         (case setup_audio_output w ctx s4 of
            (ok, ctx5, s5) \<Rightarrow> if ok then (True, audio_attach w (next_obj s) ctx5 s5) else (False, s5))"
    by (rule setupAudioThread_negotiation) blast
  have "reopening w s1 = None \<and> audio_avctx s1 \<noteq> None"
  proof (cases rule: setup_audio_output_cases [of s4 w ctx])
    case none
    then have s1: "s1 = audio_attach w (next_obj s) ctx s4" using assms s4(5) by simp
    have "audio_device w s1 = None"
      by (rule audio_device_None [of w s])
         (use none s4 in \<open>simp_all add: s1 audio_attach_fields\<close>)
    then show ?thesis using s4(4) by (simp add: reopening_def s1 audio_attach_fields split: option.splits)
  next
    case (same dev)
    let ?c = "snd (correct_audio_channels (lib w) ctx)"
    from same have s1: "s1 = audio_attach w (next_obj s) ?c (s4\<lparr>audio_avctx := Some ?c\<rparr>)"
      using assms s4(5) by simp
    have "audio_device w s1 = Some dev" "audio_avctx s1 = Some ?c"
      using same(1) by (simp_all add: s1 audio_attach_fields audio_device_def)
    then show ?thesis
      using same(2) o by (simp add: reopening_def Let_def correct_audio_channels_idem)
  next
    case (reopened dev af)
    let ?c = "snd (correct_audio_channels (lib w) ctx)"
    from reopened have s1: "s1 = audio_attach w (next_obj s) ?c
        (emit [AoClose, AoSetAudioFormat af, AoOpen True]
           (s4\<lparr>audio_avctx := Some ?c, ao := Some (dev\<lparr>audioFormat := af\<rparr>)\<rparr>))"
      using assms s4(5) by simp
    have "audio_device w s1 = Some (dev\<lparr>audioFormat := af\<rparr>)" "audio_avctx s1 = Some ?c"
      by (simp_all add: s1 audio_attach_fields audio_device_def emit_fields)
    then show ?thesis
      using reopened(2) o
      by (simp add: reopening_def Let_def correct_audio_channels_idem negotiate_format_audioFormat)
  next
    case (failed dev af)
    then show ?thesis using assms s4(5) by simp
  qed
  then show "reopening w s1 = None" and "audio_avctx s1 \<noteq> None" by simp_all
qed

text \<open>
  Claim C8. When a setup of the audio thread has succeeded and the setup is run again
  in the state it left (the same codec context, the same device with the format it was
  left with, the same collaborators), the second run succeeds and the calls that close
  or open the device are those made before it: it closes and reopens nothing.
\<close>

theorem negotiation_idempotent:
  assumes "setupAudioThread w s = (True, s1)"
  shows "fst (setupAudioThread w s1)
    \<and> reopen_calls (trace (snd (setupAudioThread w s1))) = reopen_calls (trace s1)"
  using setupAudioThread_after_success [OF assms] by (simp add: setupAudioThread_reopening)

text \<open>The first setup of a stereo stream on an unconfigured stereo device: the device
  is created and reopened with the stream's format.\<close>

lemma stereo_setup:
  "setupAudioThread (audio_world (stereo_device unconfigured True)) (player []) =
     (True, (player [])\<lparr>adec := Some 0, ao := Some (stereo_device cd_format True),
        athread := Some \<lparr>decoder = Some 0, packetQueue = [], threshold = 14, capacity = 22\<rparr>,
        next_obj := 1,
        trace := [SetStreamIndex AudioStream 0, DecoderNew 0, ConnectError 0, SetCodecContext 0,
          SetOptions 0, DecoderOpen 0 True, AudioOutputCreate 0 True,
          AoClose, AoSetAudioFormat cd_format, AoOpen True,
          ResamplerSetOutAudioFormat cd_format, ResamplerSetInAudioFormat stereo_ctx,
          DecoderPrepare 0 True, ThreadNew AudioStream, ThreadSetDecoder AudioStream (Some 0),
          PlayerSetAudioOutput True, SetThreshold AudioStream 14, SetCapacity AudioStream 22]\<rparr>)"
proof -
  have q: "queue_min (Finite 0) = 14 \<and> queue_max (Finite 0) = 22" by (rule queue_sizes_low_rate) simp
  show ?thesis
    by (simp add: setupAudioThread_def audio_reset_def new_audio_decoder_def
        setup_audio_output_def negotiate_format_def derived_format_def
        correct_audio_channels_def audio_attach_def
        Let_def emit_def player_def constructed_def world_def audio_world_def new_thread_def
        stereo_device_def stereo_ctx_def ffmpeg_def unconfigured_def cd_format_def q)
qed

text \<open>
  A stereo stream on the stereo device: the first setup creates the device and
  reopens it with the stream's format; the second setup closes and opens nothing.
\<close>

theorem negotiation_idempotent_witness:
  "setupAudioThread (audio_world (stereo_device unconfigured True)) (player []) =
     (True, (player [])\<lparr>adec := Some 0, ao := Some (stereo_device cd_format True),
        athread := Some \<lparr>decoder = Some 0, packetQueue = [], threshold = 14, capacity = 22\<rparr>,
        next_obj := 1,
        trace := [SetStreamIndex AudioStream 0, DecoderNew 0, ConnectError 0, SetCodecContext 0,
          SetOptions 0, DecoderOpen 0 True, AudioOutputCreate 0 True,
          AoClose, AoSetAudioFormat cd_format, AoOpen True,
          ResamplerSetOutAudioFormat cd_format, ResamplerSetInAudioFormat stereo_ctx,
          DecoderPrepare 0 True, ThreadNew AudioStream, ThreadSetDecoder AudioStream (Some 0),
          PlayerSetAudioOutput True, SetThreshold AudioStream 14, SetCapacity AudioStream 22]\<rparr>)
   \<and> reopen_calls (trace (snd (setupAudioThread (audio_world (stereo_device unconfigured True)) (player [])))) =
       [AoClose, AoOpen True]
   \<and> fst (setupAudioThread (audio_world (stereo_device unconfigured True))
            (snd (setupAudioThread (audio_world (stereo_device unconfigured True)) (player []))))
   \<and> reopen_calls (trace (snd (setupAudioThread (audio_world (stereo_device unconfigured True))
            (snd (setupAudioThread (audio_world (stereo_device unconfigured True)) (player [])))))) =
       [AoClose, AoOpen True]"
proof -
  let ?W = "audio_world (stereo_device unconfigured True)"
  let ?S = "(player [])\<lparr>adec := Some 0, ao := Some (stereo_device cd_format True),
        athread := Some \<lparr>decoder = Some 0, packetQueue = [], threshold = 14, capacity = 22\<rparr>,
        next_obj := 1,
        trace := [SetStreamIndex AudioStream 0, DecoderNew 0, ConnectError 0, SetCodecContext 0,
          SetOptions 0, DecoderOpen 0 True, AudioOutputCreate 0 True,
          AoClose, AoSetAudioFormat cd_format, AoOpen True,
          ResamplerSetOutAudioFormat cd_format, ResamplerSetInAudioFormat stereo_ctx,
          DecoderPrepare 0 True, ThreadNew AudioStream, ThreadSetDecoder AudioStream (Some 0),
          PlayerSetAudioOutput True, SetThreshold AudioStream 14, SetCapacity AudioStream 22]\<rparr>"
  have r: "setupAudioThread ?W (player []) = (True, ?S)"
    by (rule stereo_setup)
  have t: "reopen_calls (trace ?S) = [AoClose, AoOpen True]"
    by (simp add: reopen_calls_def)
  from negotiation_idempotent [OF r] t
  have "fst (setupAudioThread ?W ?S)
    \<and> reopen_calls (trace (snd (setupAudioThread ?W ?S))) = [AoClose, AoOpen True]"
    by (simp only:)
  then show ?thesis using t by (simp only: r snd_conv simp_thms)
qed

text \<open>
  Claim C9, as stated: with at most two channels the target format has the stream's
  own layout. A mono stream on a device that plays only stereo gets the device's
  preferred layout, stereo.
\<close>

theorem mono_stream_gets_preferred_layout:
  "channels mono_ctx \<le> 2
   \<and> channelLayout (negotiate_format ffmpeg (stereo_device unconfigured True) mono_ctx)
       \<noteq> channelLayoutFromFFmpeg ffmpeg (channel_layout mono_ctx)
   \<and> channelLayout (negotiate_format ffmpeg (stereo_device unconfigured True) mono_ctx)
       = preferredChannelLayout (stereo_device unconfigured True)"
  by (simp add: negotiate_format_def derived_format_def Let_def mono_ctx_def ffmpeg_def
      stereo_device_def)

text \<open>
  Claim C9, amended. With more than two channels the target format has the device's
  preferred channel layout, whatever the stream's own layout. With at most two
  channels it has the stream's own layout when the device supports the format derived
  from the stream or supports that layout, and the device's preferred layout otherwise.
  After a successful setup the device is configured with the target format of the
  stream's corrected codec context.
\<close>

theorem negotiated_channel_layout:
  "(2 < channels ctx \<longrightarrow>
      channelLayout (negotiate_format l dev ctx) = preferredChannelLayout dev)
   \<and> (channels ctx \<le> 2 \<longrightarrow>
      channelLayout (negotiate_format l dev ctx) =
        (if isSupported dev (derived_format l dev ctx)
            \<or> isSupportedChannelLayout dev (channelLayoutFromFFmpeg l (channel_layout ctx))
         then channelLayoutFromFFmpeg l (channel_layout ctx)
         else preferredChannelLayout dev))
   \<and> (setupAudioThread w s = (True, s1) \<and> ao s1 = Some dev1 \<and> audio_avctx s1 = Some c1 \<longrightarrow>
      audioFormat dev1 = negotiate_format (lib w) dev1 (snd (correct_audio_channels (lib w) c1)))"
proof -
  have "audioFormat dev1 = negotiate_format (lib w) dev1 (snd (correct_audio_channels (lib w) c1))"
    if "setupAudioThread w s = (True, s1)" "ao s1 = Some dev1" "audio_avctx s1 = Some c1"
    using setupAudioThread_after_success(1,2) [OF that(1)] that(2,3)
    by (simp add: reopening_def audio_device_def Let_def split: if_splits)
  then show ?thesis
    by (auto simp add: negotiate_format_def derived_format_def Let_def)
qed

theorem negotiated_channel_layout_witness:
  "2 < channels surround_ctx
   \<and> channelLayout (negotiate_format ffmpeg (stereo_device unconfigured True) surround_ctx) = 3
   \<and> channels stereo_ctx \<le> 2
   \<and> channelLayout (negotiate_format ffmpeg (surround_device unconfigured True) stereo_ctx) = 3
   \<and> channels mono_ctx \<le> 2
   \<and> channelLayout (negotiate_format ffmpeg (stereo_device unconfigured True) mono_ctx) = 3
   \<and> audioFormat (stereo_device cd_format True) =
       negotiate_format ffmpeg (stereo_device cd_format True)
         (snd (correct_audio_channels ffmpeg stereo_ctx))"
proof -
  let ?W = "audio_world (stereo_device unconfigured True)"
  have a: "2 < channels surround_ctx" "channels stereo_ctx \<le> 2" "channels mono_ctx \<le> 2"
    by (simp_all add: surround_ctx_def stereo_ctx_def mono_ctx_def)
  have r: "setupAudioThread ?W (player []) = (True, snd (setupAudioThread ?W (player [])))"
    by (simp add: stereo_setup)
  have f: "ao (snd (setupAudioThread ?W (player []))) = Some (stereo_device cd_format True)"
    "audio_avctx (snd (setupAudioThread ?W (player []))) = Some stereo_ctx"
    by (simp_all add: stereo_setup, simp add: player_def constructed_def)
  have l: "lib ?W = ffmpeg" by (simp add: audio_world_def world_def)
  note n1 = negotiated_channel_layout [of surround_ctx ffmpeg "stereo_device unconfigured True"
      ?W "player []" "snd (setupAudioThread ?W (player []))" "stereo_device cd_format True" stereo_ctx]
  note n2 = negotiated_channel_layout [of stereo_ctx ffmpeg "surround_device unconfigured True"
      ?W "player []" "snd (setupAudioThread ?W (player []))" "stereo_device cd_format True" stereo_ctx]
  note n3 = negotiated_channel_layout [of mono_ctx ffmpeg "stereo_device unconfigured True"
      ?W "player []" "snd (setupAudioThread ?W (player []))" "stereo_device cd_format True" stereo_ctx]
  have "channelLayout (negotiate_format ffmpeg (stereo_device unconfigured True) surround_ctx) = 3"
    using n1 a by (simp add: stereo_device_def)
  moreover have "channelLayout (negotiate_format ffmpeg (surround_device unconfigured True) stereo_ctx) = 3"
    using n2 a by (simp add: surround_device_def derived_format_def stereo_ctx_def ffmpeg_def)
  moreover have "channelLayout (negotiate_format ffmpeg (stereo_device unconfigured True) mono_ctx) = 3"
    using n3 a by (simp add: stereo_device_def derived_format_def mono_ctx_def ffmpeg_def)
  moreover have "audioFormat (stereo_device cd_format True) =
       negotiate_format ffmpeg (stereo_device cd_format True)
         (snd (correct_audio_channels ffmpeg stereo_ctx))"
    using n1 r f l by simp
  ultimately show ?thesis using a by simp
qed

lemma disabled_detached:
  "athread s1 = map_option (\<lambda>th. th\<lparr>packetQueue := [], decoder := None\<rparr>) (athread s) \<Longrightarrow>
   disabled AudioStream s1"
  by (simp add: disabled_def thread_of_def split: option.splits)

text \<open>
  Claim C6, amended. When the device has to be reopened with the target format and
  \<^verbatim>\<open>open()\<close> fails, the device instance is deleted (\<^verbatim>\<open>ao\<close> is null afterwards) and
  \<open>setupAudioThread\<close> returns false at once: the last calls are \<^verbatim>\<open>close\<close>,
  \<^verbatim>\<open>setAudioFormat\<close>, the failed \<^verbatim>\<open>open\<close> and the deletion; no error signal is emitted;
  the new audio decoder stays constructed, but it is not installed in the audio thread,
  no thread is created and an existing thread is left detached, without a decoder.
\<close>

theorem device_open_failure:
  assumes "reopening w s = Some (dev, af)" "\<not> open_result dev af"
  shows "\<not> fst (setupAudioThread w s)
    \<and> ao (snd (setupAudioThread w s)) = None
    \<and> (\<exists>es. trace (snd (setupAudioThread w s)) =
              trace s @ es @ [AoClose, AoSetAudioFormat af, AoOpen False, AoDelete])
    \<and> errors (trace (snd (setupAudioThread w s))) = errors (trace s)
    \<and> adec (snd (setupAudioThread w s)) = Some (next_obj s)
    \<and> athread (snd (setupAudioThread w s)) =
        map_option (\<lambda>th. th\<lparr>packetQueue := [], decoder := None\<rparr>) (athread s)
    \<and> disabled AudioStream (snd (setupAudioThread w s))"
proof -
  from assms(1) obtain c where c: "audio_avctx s = Some c" and o: "audio_decoder_open w"
    by (auto simp add: reopening_def split: option.splits if_splits)
  note ra = assms(1) [unfolded reopening_alt [OF c o]]
  from c o obtain s4 ctx where
    s4: "ao s4 = audio_device w s"
      "adec s4 = Some (next_obj s)"
      "athread s4 = map_option (\<lambda>th. th\<lparr>packetQueue := [], decoder := None\<rparr>) (athread s)"
      "snd (correct_audio_channels (lib w) ctx) = snd (correct_audio_channels (lib w) c)"
      "\<exists>es. trace s4 = trace s @ es \<and> errors es = [] \<and> reopen_calls es = []
         \<and> deleted_objs AudioStream es = (case adec s of None \<Rightarrow> [] | Some old \<Rightarrow> [old])
         \<and> created_objs AudioStream es = [next_obj s]"
      "setupAudioThread w s =
         (case setup_audio_output w ctx s4 of
            (ok, ctx5, s5) \<Rightarrow> if ok then (True, audio_attach w (next_obj s) ctx5 s5) else (False, s5))"
    by (rule setupAudioThread_negotiation) blast
  from s4(5) obtain es where es: "trace s4 = trace s @ es" "errors es = []" by blast
  show ?thesis
  proof (cases rule: setup_audio_output_cases [of s4 w ctx])
    case none
    then show ?thesis using ra s4(1) by simp
  next
    case (same d)
    then show ?thesis using ra s4(1,4) by simp
  next
    case (reopened d a)
    then show ?thesis using ra s4(1,4) assms(2) by (auto split: if_splits)
  next
    case (failed d a)
    then have da: "d = dev" "a = af" using ra s4(1,4) by (auto split: if_splits)
    have r: "setupAudioThread w s =
      (False, (emit [AoDelete]
            (emit [AoClose, AoSetAudioFormat af, AoOpen False]
              (s4\<lparr>audio_avctx := Some (snd (correct_audio_channels (lib w) ctx)),
                 ao := Some (dev\<lparr>audioFormat := af\<rparr>)\<rparr>)))\<lparr>ao := None\<rparr>)"
      using failed(5) s4(6) da by simp
    have d: "disabled AudioStream (snd (setupAudioThread w s))"
      by (rule disabled_detached [of _ s]) (simp add: r emit_fields s4)
    have "trace (snd (setupAudioThread w s)) =
              trace s @ es @ [AoClose, AoSetAudioFormat af, AoOpen False, AoDelete]"
      by (simp add: r emit_fields es)
    then show ?thesis
      using d es(2) by (simp add: r emit_fields s4 errors_append, simp add: errors_def)
  qed
qed

text \<open>The setup of a stereo stream when the device cannot be opened.\<close>

lemma broken_device_setup:
  "setupAudioThread broken_device_world (player []) =
     (False, (player [])\<lparr>adec := Some 0, ao := None, next_obj := 1,
        trace := [SetStreamIndex AudioStream 0, DecoderNew 0, ConnectError 0, SetCodecContext 0,
          SetOptions 0, DecoderOpen 0 True, AudioOutputCreate 0 True,
          AoClose, AoSetAudioFormat cd_format, AoOpen False, AoDelete]\<rparr>)"
  by (simp add: setupAudioThread_def audio_reset_def new_audio_decoder_def
      setup_audio_output_def negotiate_format_def derived_format_def
      correct_audio_channels_def broken_device_world_def
      Let_def emit_def player_def constructed_def world_def audio_world_def
      stereo_device_def stereo_ctx_def ffmpeg_def unconfigured_def cd_format_def)

text \<open>
  Claim C6, as stated: the setup still completes and a "no audio device" condition is
  signalled. When the device cannot be opened the setup returns false, no audio thread
  exists afterwards and the player has emitted nothing.
\<close>

theorem device_open_failure_fails_setup:
  "\<not> fst (setupAudioThread broken_device_world (player []))
   \<and> athread (snd (setupAudioThread broken_device_world (player []))) = None
   \<and> errors (trace (snd (setupAudioThread broken_device_world (player [])))) = []"
  by (simp add: broken_device_setup errors_def, simp add: player_def constructed_def)

theorem device_open_failure_witness:
  "reopening broken_device_world (player []) = Some (stereo_device unconfigured False, cd_format)
   \<and> \<not> open_result (stereo_device unconfigured False) cd_format
   \<and> \<not> fst (setupAudioThread broken_device_world (player []))
   \<and> ao (snd (setupAudioThread broken_device_world (player []))) = None
   \<and> adec (snd (setupAudioThread broken_device_world (player []))) = Some 0
   \<and> disabled AudioStream (snd (setupAudioThread broken_device_world (player [])))"
proof -
  have h: "reopening broken_device_world (player []) = Some (stereo_device unconfigured False, cd_format)"
    by (simp add: reopening_def audio_device_def negotiate_format_def derived_format_def
        correct_audio_channels_def broken_device_world_def Let_def player_def constructed_def
        world_def audio_world_def stereo_device_def stereo_ctx_def ffmpeg_def unconfigured_def
        cd_format_def)
  have n: "\<not> open_result (stereo_device unconfigured False) cd_format"
    by (simp add: stereo_device_def)
  have "next_obj (player []) = 0" by (simp add: player_def constructed_def)
  with device_open_failure [OF h n] h n show ?thesis by simp
qed

lemma setupAudioThread_decoders:
  "adec (snd (setupAudioThread w s)) = (if audio_avctx s = None then adec s else Some (next_obj s))"
  "deleted_objs AudioStream (trace (snd (setupAudioThread w s))) =
     deleted_objs AudioStream (trace s)
       @ (if audio_avctx s = None then [] else (case adec s of None \<Rightarrow> [] | Some old \<Rightarrow> [old]))"
  "\<not> fst (setupAudioThread w s) \<Longrightarrow> disabled AudioStream (snd (setupAudioThread w s))"
proof -
  have "adec (snd (setupAudioThread w s)) = (if audio_avctx s = None then adec s else Some (next_obj s))
    \<and> deleted_objs AudioStream (trace (snd (setupAudioThread w s))) =
       deleted_objs AudioStream (trace s)
         @ (if audio_avctx s = None then [] else (case adec s of None \<Rightarrow> [] | Some old \<Rightarrow> [old]))
    \<and> (\<not> fst (setupAudioThread w s) \<longrightarrow> disabled AudioStream (snd (setupAudioThread w s)))"
  proof (cases "audio_avctx s")
    case None
    obtain es where "trace (audio_reset w s) = trace s @ es" "deleted_objs AudioStream es = []"
      using audio_reset_trace [of w s AudioStream] by blast
    then show ?thesis
      using None disabled_detached [of "audio_reset w s" s]
      by (simp add: setupAudioThread_absent audio_reset_fields deleted_objs_append)
  next
    case (Some c)
    show ?thesis
    proof (cases "audio_decoder_open w")
      case False
      let ?s2 = "snd (new_audio_decoder (audio_reset w s))"
      obtain e1 where e1: "trace (audio_reset w s) = trace s @ e1" "deleted_objs AudioStream e1 = []"
        using audio_reset_trace [of w s AudioStream] by blast
      obtain e2 where e2: "trace ?s2 = trace (audio_reset w s) @ e2"
        "deleted_objs AudioStream e2 = (case adec s of None \<Rightarrow> [] | Some old \<Rightarrow> [old])"
        using new_audio_decoder_trace [of "audio_reset w s"] by (auto simp add: audio_reset_fields)
      have "disabled AudioStream (emit [DecoderOpen (next_obj s) False, EmitError AudioCodecNotFound] ?s2)"
        by (rule disabled_detached [of _ s])
           (simp add: emit_fields new_audio_decoder_fields audio_reset_fields)
      then show ?thesis
        using Some False e1 e2
        by (simp add: setupAudioThread_open_failed emit_fields new_audio_decoder_fields
            audio_reset_fields deleted_objs_append, simp add: deleted_objs_def neutral_simps)
    next
      case True
      from Some True obtain s4 ctx where
        s4: "adec s4 = Some (next_obj s)"
          "athread s4 = map_option (\<lambda>th. th\<lparr>packetQueue := [], decoder := None\<rparr>) (athread s)"
          "\<exists>es. trace s4 = trace s @ es \<and> errors es = [] \<and> reopen_calls es = []
             \<and> deleted_objs AudioStream es = (case adec s of None \<Rightarrow> [] | Some old \<Rightarrow> [old])
             \<and> created_objs AudioStream es = [next_obj s]"
          "setupAudioThread w s =
             (case setup_audio_output w ctx s4 of
                (ok, ctx5, s5) \<Rightarrow> if ok then (True, audio_attach w (next_obj s) ctx5 s5) else (False, s5))"
        by (rule setupAudioThread_negotiation) blast
      from s4(3) obtain es where es: "trace s4 = trace s @ es"
        "deleted_objs AudioStream es = (case adec s of None \<Rightarrow> [] | Some old \<Rightarrow> [old])" by blast
      have att: "deleted_objs AudioStream (trace (audio_attach w d c' x)) = deleted_objs AudioStream (trace x)" for d c' x
        using audio_attach_trace [of w d c' x AudioStream] by (auto simp add: deleted_objs_append)
      show ?thesis
      proof (cases rule: setup_audio_output_cases [of s4 w ctx])
        case none
        then show ?thesis
          using Some s4 es by (simp add: att audio_attach_fields deleted_objs_append)
      next
        case (same dev)
        then show ?thesis
          using Some s4 es by (simp add: att audio_attach_fields deleted_objs_append)
      next
        case (reopened dev af)
        then show ?thesis
          using Some s4 es
          by (simp add: att audio_attach_fields deleted_objs_append emit_fields,
              simp add: deleted_objs_def neutral_simps)
      next
        case (failed dev af)
        have "disabled AudioStream (snd (setupAudioThread w s))"
          by (rule disabled_detached [of _ s]) (simp add: failed s4 emit_fields)
        then show ?thesis
          using Some s4 es failed
          by (simp add: deleted_objs_append emit_fields, simp add: deleted_objs_def neutral_simps)
      qed
    qed
  qed
  then show "adec (snd (setupAudioThread w s)) = (if audio_avctx s = None then adec s else Some (next_obj s))"
    and "deleted_objs AudioStream (trace (snd (setupAudioThread w s))) =
     deleted_objs AudioStream (trace s)
       @ (if audio_avctx s = None then [] else (case adec s of None \<Rightarrow> [] | Some old \<Rightarrow> [old]))"
    and "\<not> fst (setupAudioThread w s) \<Longrightarrow> disabled AudioStream (snd (setupAudioThread w s))"
    by simp_all
qed

lemma setupVideoThread_absent:
  assumes "video_avctx s = None"
  shows "setupVideoThread w s = (False, video_reset w s)"
proof -
  have "video_avctx (video_reset w s) = None" using assms by (simp add: video_reset_fields)
  then show ?thesis by (simp add: setupVideoThread_def Let_def)
qed

lemma decoder_inv_constructed: "decoder_inv k (constructed vcs aos)"
  by (cases k) (simp_all add: decoder_inv_def owned_def constructed_def)

text \<open>The setup of the video thread after the video stream has disappeared.\<close>

lemma video_gone_setup:
  "setupVideoThread abc_world video_gone =
    (False, (player [0, 1, 2])\<lparr>video_avctx := None, vdec := Some (1, 1),
       vthread := Some \<lparr>decoder = None, packetQueue = [], threshold = 14, capacity = 22\<rparr>,
       frame_rate := Finite 0, next_obj := 2,
       trace := [SetStreamIndex VideoStream 0,
        DecoderCreate 0 (Some 0), SetCodecContext 0, SetOptions 0,
        DecoderPrepare 0 True, DecoderOpen 0 False, DecoderDelete VideoStream 0,
        DecoderCreate 1 (Some 1), SetCodecContext 1, SetOptions 1,
        DecoderPrepare 1 True, DecoderOpen 1 True,
        ConnectError 1, ThreadNew VideoStream, ThreadSetDecoder VideoStream (Some 1),
        ThreadSetPicture, SetThreshold VideoStream 14, SetCapacity VideoStream 22,
        SetStreamIndex VideoStream 0, QueueClear VideoStream,
        ThreadSetDecoder VideoStream None, InitStatistics VideoStream]\<rparr>)"
  unfolding video_gone_def playing_def abc_setup snd_conv
  by (simp add: setupVideoThread_def video_reset_def initVideoStatistics_def Let_def emit_def
      player_def constructed_def)

text \<open>
  Claim C3, as stated: a setup that finds the stream absent leaves the previous decoder
  torn down. The player owns decoder 1; the video stream disappears and the setup runs
  again: it fails and detaches the decoder from the thread, but decoder 1 is not
  deleted, it is still alive and still owned by the player.
\<close>

theorem absent_stream_keeps_decoder:
  "vdec video_gone = Some (1, 1)
   \<and> \<not> fst (setupVideoThread abc_world video_gone)
   \<and> vdec (snd (setupVideoThread abc_world video_gone)) = Some (1, 1)
   \<and> deleted_objs VideoStream (trace (snd (setupVideoThread abc_world video_gone))) = [0]
   \<and> live_after VideoStream {} (trace (snd (setupVideoThread abc_world video_gone))) = {1}"
  unfolding video_gone_setup snd_conv fst_conv
  unfolding video_gone_def playing_def abc_setup snd_conv
  by (simp add: deleted_objs_def live_step_def neutral_simps)

text \<open>
  Claim C3, amended. For each stream kind at most one decoder instance is alive at any
  time: the constructed player satisfies the invariant \<open>decoder_inv\<close> and both setups
  keep it, for both kinds. A setup that finds its stream present deletes the previous
  decoder; by the invariant it does so before it constructs a new one. A setup whose
  decoder fails to open (audio), or that finds no working candidate (video), leaves the
  previous decoder deleted and the stream kind disabled, and the video player without
  a decoder. A setup that finds its stream absent fails and leaves the kind disabled,
  but it deletes nothing: the player keeps the previous decoder.
\<close>

theorem decoder_lifecycle:
  "decoder_inv k (constructed vcs aos)
   \<and> (decoder_inv k s \<longrightarrow>
        decoder_inv k (snd (setupAudioThread w s)) \<and> decoder_inv k (snd (setupVideoThread w s)))
   \<and> (audio_avctx s \<noteq> None \<longrightarrow>
        adec (snd (setupAudioThread w s)) = Some (next_obj s)
        \<and> deleted_objs AudioStream (trace (snd (setupAudioThread w s))) =
            deleted_objs AudioStream (trace s) @ (case adec s of None \<Rightarrow> [] | Some old \<Rightarrow> [old]))
   \<and> (video_avctx s \<noteq> None \<longrightarrow>
        (\<exists>failed.
           created_objs VideoStream (trace (snd (setupVideoThread w s))) =
             created_objs VideoStream (trace s) @ failed
               @ (case vdec (snd (setupVideoThread w s)) of None \<Rightarrow> [] | Some (d, v) \<Rightarrow> [d])
         \<and> deleted_objs VideoStream (trace (snd (setupVideoThread w s))) =
             deleted_objs VideoStream (trace s)
               @ (case vdec s of None \<Rightarrow> [] | Some (old, v) \<Rightarrow> [old]) @ failed))
   \<and> (audio_avctx s \<noteq> None \<and> \<not> audio_decoder_open w \<longrightarrow>
        \<not> fst (setupAudioThread w s) \<and> disabled AudioStream (snd (setupAudioThread w s)))
   \<and> (video_avctx s \<noteq> None \<and> \<not> fst (setupVideoThread w s) \<longrightarrow>
        vdec (snd (setupVideoThread w s)) = None
        \<and> disabled VideoStream (snd (setupVideoThread w s)))
   \<and> (audio_avctx s = None \<longrightarrow>
        \<not> fst (setupAudioThread w s) \<and> disabled AudioStream (snd (setupAudioThread w s))
        \<and> adec (snd (setupAudioThread w s)) = adec s
        \<and> deleted_objs AudioStream (trace (snd (setupAudioThread w s))) =
            deleted_objs AudioStream (trace s))
   \<and> (video_avctx s = None \<longrightarrow>
        \<not> fst (setupVideoThread w s) \<and> disabled VideoStream (snd (setupVideoThread w s))
        \<and> vdec (snd (setupVideoThread w s)) = vdec s
        \<and> deleted_objs VideoStream (trace (snd (setupVideoThread w s))) =
            deleted_objs VideoStream (trace s))"
proof -
  have v1: "\<exists>failed.
           created_objs VideoStream (trace (snd (setupVideoThread w s))) =
             created_objs VideoStream (trace s) @ failed
               @ (case vdec (snd (setupVideoThread w s)) of None \<Rightarrow> [] | Some (d, v) \<Rightarrow> [d])
         \<and> deleted_objs VideoStream (trace (snd (setupVideoThread w s))) =
             deleted_objs VideoStream (trace s)
               @ (case vdec s of None \<Rightarrow> [] | Some (old, v) \<Rightarrow> [old]) @ failed"
    if "video_avctx s \<noteq> None"
  proof -
    from that obtain ctx where "video_avctx s = Some ctx" by blast
    from setupVideoThread_objs [OF this, of w] show ?thesis by blast
  qed
  have v2: "vdec (snd (setupVideoThread w s)) = None"
    if "video_avctx s \<noteq> None" "\<not> fst (setupVideoThread w s)"
  proof -
    from that obtain ctx where c: "video_avctx s = Some ctx" by blast
    from setupVideoThread_result [OF c, of w] that(2) show ?thesis by simp
  qed
  have a1: "\<not> fst (setupAudioThread w s)" if "audio_avctx s \<noteq> None \<and> \<not> audio_decoder_open w"
    using that by (simp add: setupAudioThread_reopening)
  have a2: "\<not> fst (setupAudioThread w s)" if "audio_avctx s = None"
    using that by (simp add: setupAudioThread_reopening)
  have v3: "\<not> fst (setupVideoThread w s) \<and> vdec (snd (setupVideoThread w s)) = vdec s
        \<and> deleted_objs VideoStream (trace (snd (setupVideoThread w s))) =
            deleted_objs VideoStream (trace s)" if "video_avctx s = None"
    using that by (simp add: setupVideoThread_absent video_reset_fields video_reset_trace)
  show ?thesis
    using v1 v2 v3 a1 a2
    by (simp add: decoder_inv_constructed decoder_inv_setupAudioThread decoder_inv_setupVideoThread
        setupAudioThread_decoders setupVideoThread_disabled)
qed

theorem decoder_lifecycle_witness:
  "decoder_inv VideoStream (player [0, 1, 2])
   \<and> decoder_inv VideoStream (snd (setupVideoThread abc_world (player [0, 1, 2])))
   \<and> decoder_inv AudioStream (snd (setupAudioThread deaf_world (player [0, 1, 2])))
   \<and> audio_avctx (player [0, 1, 2]) \<noteq> None \<and> \<not> audio_decoder_open deaf_world
   \<and> \<not> fst (setupAudioThread deaf_world (player [0, 1, 2]))
   \<and> disabled AudioStream (snd (setupAudioThread deaf_world (player [0, 1, 2])))
   \<and> video_avctx (player [0, 1, 2]) \<noteq> None
   \<and> \<not> fst (setupVideoThread closed_world (player [0, 1, 2]))
   \<and> vdec (snd (setupVideoThread closed_world (player [0, 1, 2]))) = None
   \<and> video_avctx video_gone = None
   \<and> vdec (snd (setupVideoThread abc_world video_gone)) = vdec video_gone"
proof -
  let ?P = "player [0, 1, 2]"
  have i: "decoder_inv k ?P" for k
    by (cases k) (simp_all add: decoder_inv_def owned_def player_def constructed_def)
  have h: "audio_avctx ?P \<noteq> None" "video_avctx ?P \<noteq> None" "\<not> audio_decoder_open deaf_world"
    "video_avctx video_gone = None"
    by (simp_all add: player_def constructed_def deaf_world_def world_def video_gone_def)
  have "video_avctx ?P = Some stereo_ctx" "vc_ids ?P = [0, 1, 2]"
    by (simp_all add: player_def constructed_def)
  then have n: "\<not> fst (setupVideoThread closed_world ?P)"
    using setupVideoThread_result(1) [of ?P stereo_ctx closed_world]
    by (simp add: decoder_works_def closed_world_def world_def)
  show ?thesis
    using decoder_lifecycle [of VideoStream "[]" "[]" ?P abc_world]
      decoder_lifecycle [of AudioStream "[]" "[]" ?P deaf_world]
      decoder_lifecycle [of VideoStream "[]" "[]" ?P closed_world]
      decoder_lifecycle [of VideoStream "[]" "[]" video_gone abc_world]
      i h n
    by simp
qed

lemma setupAudioThread_sizes_queue:
  assumes "setupAudioThread w s = (True, s1)"
  shows "map_option threshold (athread s1) = Some (queue_min (frame_rate s1))
    \<and> map_option capacity (athread s1) = Some (queue_max (frame_rate s1))"
proof -
  have f: "fst (setupAudioThread w s)" using assms by simp
  then have o: "audio_decoder_open w" by (simp add: setupAudioThread_reopening)
  from f obtain c where c: "audio_avctx s = Some c" by (auto simp add: setupAudioThread_reopening)
  from c o obtain s4 ctx where
    s4: "setupAudioThread w s =
         (case setup_audio_output w ctx s4 of
            (ok, ctx5, s5) \<Rightarrow> if ok then (True, audio_attach w (next_obj s) ctx5 s5) else (False, s5))"
    by (rule setupAudioThread_negotiation) blast
  obtain ok ctx5 s5 where n: "setup_audio_output w ctx s4 = (ok, ctx5, s5)"
    by (cases "setup_audio_output w ctx s4")
  then have "s1 = audio_attach w (next_obj s) ctx5 s5"
    using assms s4 by (simp split: if_splits)
  then show ?thesis by (simp add: audio_attach_fields)
qed

lemma setupVideoThread_sizes_queue:
  assumes "setupVideoThread w s = (True, s1)"
  shows "map_option threshold (vthread s1) = Some (queue_min (frame_rate s1))
    \<and> map_option capacity (vthread s1) = Some (queue_max (frame_rate s1))"
  using assms
  by (cases rule: setupVideoThread_cases [of w s]) (auto simp add: video_attach_fields)

text \<open>
  Claim C1, as stated: for every frame rate \<open>f\<close> the threshold is
  \<open>\<lfloor>0.61803 * max 24 f\<rfloor>\<close>. At the frame rate 1700000/61803, the double
  27.506755335501513, the product of the doubles \<^verbatim>\<open>0.61803\<close> and \<open>f\<close> rounds to 17 and
  the threshold is 17, while the floor of the exact product is 16.
\<close>

theorem queue_min_1700000_61803_not_floor:
  "av_q2d 1700000 61803 = Finite (7742463317446001 / 281474976710656)
   \<and> queue_min (av_q2d 1700000 61803) = 17
   \<and> \<lfloor>61803 / 100000 * max 24 (7742463317446001 / 281474976710656 :: rat)\<rfloor> = 16"
proof (intro conjI)
  show "av_q2d 1700000 61803 = Finite (7742463317446001 / 281474976710656)"
    by (rule av_q2d_1700000_61803)
  show "queue_min (av_q2d 1700000 61803) = 17"
    unfolding av_q2d_1700000_61803 by (rule queue_min_1700000_61803)
  show "\<lfloor>61803 / 100000 * max 24 (7742463317446001 / 281474976710656 :: rat)\<rfloor> = 16"
    by (rule queue_min_spec_1700000_61803)
qed

text \<open>
  Claim C1, amended. Let the frame rate \<open>f\<close> be NaN, negative infinity or a finite
  rate of at most \<open>2\<^sup>3\<^sup>1\<close>, and let \<open>r\<close> be \<^verbatim>\<open>qMax<qreal>(24.0, f)\<close>: the greater of 24 and
  \<open>f\<close>, and 24 when \<open>f\<close> is NaN. The threshold is the double product of \<^verbatim>\<open>0.61803\<close> and
  \<open>r\<close> converted to \<^verbatim>\<open>int\<close>; it lies between \<open>\<lfloor>0.61803 * r - r / 2\<^sup>5\<^sup>2\<rfloor>\<close> and
  \<open>\<lfloor>0.61803 * r + r / 2\<^sup>5\<^sup>2\<rfloor>\<close>, so it differs from \<open>\<lfloor>0.61803 * r\<rfloor>\<close> by at most 1. The
  capacity is \<open>\<lfloor>1.61803 * threshold\<rfloor>\<close>; the capacity is greater than the threshold and
  both are positive. For a frame rate that is not greater than 24, such as the 0 of an
  unknown rate, and for NaN, they are 14 and 22. A setup of the audio or of the video
  thread that succeeds leaves the thread's queue with the threshold and the capacity
  of the player's video frame rate.
\<close>

theorem queue_sizing:
  "(qMax (Finite 24) f = Finite r \<and> r \<le> 2147483648 \<longrightarrow>
       \<lfloor>61803 / 100000 * r - r / 2 ^ 52\<rfloor> \<le> queue_min f
     \<and> queue_min f \<le> \<lfloor>61803 / 100000 * r + r / 2 ^ 52\<rfloor>
     \<and> \<bar>queue_min f - \<lfloor>61803 / 100000 * r\<rfloor>\<bar> \<le> 1
     \<and> queue_max f = \<lfloor>161803 / 100000 * rat_of_int (queue_min f)\<rfloor>
     \<and> queue_min f < queue_max f
     \<and> 0 < queue_min f \<and> 0 < queue_max f)
   \<and> (\<not> qreal_less (Finite 24) f \<longrightarrow> queue_min f = 14 \<and> queue_max f = 22)
   \<and> queue_min (Finite 0) = 14 \<and> queue_max (Finite 0) = 22
   \<and> queue_min NaN = 14 \<and> queue_max NaN = 22
   \<and> (setupAudioThread w s = (True, s1) \<longrightarrow>
        map_option threshold (athread s1) = Some (queue_min (frame_rate s1))
        \<and> map_option capacity (athread s1) = Some (queue_max (frame_rate s1)))
   \<and> (setupVideoThread w s = (True, s2) \<longrightarrow>
        map_option threshold (vthread s2) = Some (queue_min (frame_rate s2))
        \<and> map_option capacity (vthread s2) = Some (queue_max (frame_rate s2)))"
proof -
  have A: "\<lfloor>61803 / 100000 * r - r / 2 ^ 52\<rfloor> \<le> queue_min f
     \<and> queue_min f \<le> \<lfloor>61803 / 100000 * r + r / 2 ^ 52\<rfloor>
     \<and> \<bar>queue_min f - \<lfloor>61803 / 100000 * r\<rfloor>\<bar> \<le> 1
     \<and> queue_max f = \<lfloor>161803 / 100000 * rat_of_int (queue_min f)\<rfloor>
     \<and> queue_min f < queue_max f
     \<and> 0 < queue_min f \<and> 0 < queue_max f"
    if f: "qMax (Finite 24) f = Finite r" and r: "r \<le> 2147483648"
  proof -
    have r24: "24 \<le> r" using f by (rule qMax_24)
    note b = queue_min_bounds [OF f r24 r]
    note x = queue_max_exact [OF b(1,2)]
    have gt: "queue_min f < queue_max f" unfolding x(2) using b(1) by simp
    have "r / 2 ^ 52 < 1" using r by simp
    then have "61803 / 100000 * r - 1 \<le> 61803 / 100000 * r - r / 2 ^ 52"
      and "61803 / 100000 * r + r / 2 ^ 52 \<le> 61803 / 100000 * r + 1" by simp_all
    then have "\<lfloor>61803 / 100000 * r - 1\<rfloor> \<le> \<lfloor>61803 / 100000 * r - r / 2 ^ 52\<rfloor>"
      and "\<lfloor>61803 / 100000 * r + r / 2 ^ 52\<rfloor> \<le> \<lfloor>61803 / 100000 * r + 1\<rfloor>"
      by (simp_all only: floor_mono)
    then have "\<bar>queue_min f - \<lfloor>61803 / 100000 * r\<rfloor>\<bar> \<le> 1" using b(3,4) by simp
    then show ?thesis using b x(1) gt by simp
  qed
  have "queue_min (Finite 0) = 14 \<and> queue_max (Finite 0) = 22"
    by (rule queue_sizes_low_rate) simp
  moreover have "queue_min NaN = 14 \<and> queue_max NaN = 22"
    by (rule queue_sizes_low_rate) simp
  ultimately show ?thesis
    using A queue_sizes_low_rate [of f]
      setupAudioThread_sizes_queue [of w s s1] setupVideoThread_sizes_queue [of w s s2]
    by blast
qed

text \<open>
  At 25 frames per second the sizes are 15 and 24, at 12 frames per second 14 and 22.
  The first setups of a constructed player find the frame rate 0 in the statistics and
  size both queues to 14 and 22.
\<close>

theorem queue_sizing_witness:
  "queue_min (Finite 25) = 15 \<and> queue_max (Finite 25) = 24
   \<and> queue_min (Finite 12) = 14 \<and> queue_max (Finite 12) = 22
   \<and> fst (setupAudioThread (audio_world (stereo_device unconfigured True)) (player []))
   \<and> map_option threshold
        (athread (snd (setupAudioThread (audio_world (stereo_device unconfigured True)) (player []))))
       = Some 14
   \<and> map_option capacity
        (athread (snd (setupAudioThread (audio_world (stereo_device unconfigured True)) (player []))))
       = Some 22
   \<and> fst (setupVideoThread abc_world (player [0, 1, 2]))
   \<and> map_option threshold (vthread (snd (setupVideoThread abc_world (player [0, 1, 2])))) = Some 14
   \<and> map_option capacity (vthread (snd (setupVideoThread abc_world (player [0, 1, 2])))) = Some 22"
proof -
  let ?A = "setupAudioThread (audio_world (stereo_device unconfigured True)) (player [])"
  let ?V = "setupVideoThread abc_world (player [0, 1, 2])"
  have a: "?A = (True, snd ?A)" "frame_rate (snd ?A) = Finite 0"
    unfolding stereo_setup by (simp_all add: player_def constructed_def)
  have v: "?V = (True, snd ?V)" "frame_rate (snd ?V) = Finite 0"
    unfolding abc_setup by (simp_all add: player_def constructed_def)
  note qa = queue_sizing [where f = "Finite 25" and r = 25
      and w = "audio_world (stereo_device unconfigured True)"
      and s = "player []" and ?s1.0 = "snd ?A" and ?s2.0 = "snd ?V"]
  note qv = queue_sizing [where f = "Finite 12" and r = 24 and w = abc_world
      and s = "player [0, 1, 2]" and ?s1.0 = "snd ?A" and ?s2.0 = "snd ?V"]
  have q0: "queue_min (Finite 0) = 14" "queue_max (Finite 0) = 22" using qa by blast+
  have "queue_min (Finite 25) = 15 \<and> queue_max (Finite 25) = 24"
  proof -
    have "qMax (Finite 24) (Finite 25) = Finite 25 \<and> (25::rat) \<le> 2147483648"
      by (simp add: qMax_def)
    then have "\<lfloor>61803 / 100000 * 25 - 25 / 2 ^ 52 :: rat\<rfloor> \<le> queue_min (Finite 25)"
      and "queue_min (Finite 25) \<le> \<lfloor>61803 / 100000 * 25 + 25 / 2 ^ 52 :: rat\<rfloor>"
      and x: "queue_max (Finite 25) = \<lfloor>161803 / 100000 * rat_of_int (queue_min (Finite 25))\<rfloor>"
      using qa by blast+
    moreover have "\<lfloor>61803 / 100000 * 25 - 25 / 2 ^ 52 :: rat\<rfloor> = 15"
      by (rule floor_unique) simp_all
    moreover have "\<lfloor>61803 / 100000 * 25 + 25 / 2 ^ 52 :: rat\<rfloor> = 15"
      by (rule floor_unique) simp_all
    ultimately have m: "queue_min (Finite 25) = 15" by linarith
    moreover have "\<lfloor>161803 / 100000 * rat_of_int 15\<rfloor> = 24"
      by (rule floor_unique) simp_all
    ultimately show ?thesis using x by simp
  qed
  moreover have "queue_min (Finite 12) = 14 \<and> queue_max (Finite 12) = 22"
  proof -
    have "\<not> qreal_less (Finite 24) (Finite 12)" by simp
    then show ?thesis using qv by blast
  qed
  moreover have "map_option threshold (athread (snd ?A)) = Some 14
    \<and> map_option capacity (athread (snd ?A)) = Some 22"
  proof -
    have "map_option threshold (athread (snd ?A)) = Some (queue_min (frame_rate (snd ?A)))
      \<and> map_option capacity (athread (snd ?A)) = Some (queue_max (frame_rate (snd ?A)))"
      using qa a(1) by blast
    then show ?thesis by (simp only: a(2) q0)
  qed
  moreover have "map_option threshold (vthread (snd ?V)) = Some 14
    \<and> map_option capacity (vthread (snd ?V)) = Some 22"
  proof -
    have "map_option threshold (vthread (snd ?V)) = Some (queue_min (frame_rate (snd ?V)))
      \<and> map_option capacity (vthread (snd ?V)) = Some (queue_max (frame_rate (snd ?V)))"
      using qv v(1) by blast
    then show ?thesis by (simp only: v(2) q0)
  qed
  moreover have "fst ?A" "fst ?V" using a(1) v(1) by (metis fst_conv)+
  ultimately show ?thesis by blast
qed

end
